theory Spec2Isabelle
  imports
    Complex_Main
    "HOL-Library.AList"
    "HOL-Library.Char_ord"
    "HOL-Library.List_Lexorder"
    "HOL-Library.Product_Lexorder"
begin

chapter \<open>EINSim analysis scripts: parsing, identities, combination, top-K selection\<close>

text \<open>
  The development embeds three Python modules of the repository:
  \<^item> \<^verbatim>\<open>script/utils/utils.py\<close>: the keyed line format (\<^verbatim>\<open>uid: nw: bl: ... obs:\<close>), run
    identities, \<^verbatim>\<open>combine_runs\<close>, \<^verbatim>\<open>get_output_string\<close> and the streaming reducer;
  \<^item> \<^verbatim>\<open>script/utils.py\<close>: the older positional line format (\<^verbatim>\<open>REP: p: t: k: n: ...\<close>) with
    \<^verbatim>\<open>parse_all_files\<close>; its definitions carry the prefix \<open>legacy_\<close> where a name clashes;
  \<^item> \<^verbatim>\<open>script/ein/ein.py\<close>: the likelihood callback and its bounded set of best models.

  Python exceptions are values of type \<open>error\<close>; a function that may raise returns
  \<open>error + 'a\<close>. Python integers are \<open>int\<close>, strings are \<open>string\<close> (ASCII), dictionaries
  are association lists in insertion order, floating-point quotients are exact \<open>real\<close>
  quotients.
\<close>

section \<open>Python values and built-ins\<close>

datatype error =
    ValueError
  | TypeError
  | KeyError
  | IndexError
  | ZeroDivisionError
  | OverflowError
  | NameError string
  | UnboundLocalError string
  | AssertionError string
  | KeyboardInterrupt

text \<open>Sequencing of computations that may raise: the first exception wins.\<close>

definition bind :: "error + 'a \<Rightarrow> ('a \<Rightarrow> error + 'b) \<Rightarrow> error + 'b" where
  "bind m f = (case m of Inl e \<Rightarrow> Inl e | Inr x \<Rightarrow> f x)"

text \<open>A metadata value that is either the integer default \<^verbatim>\<open>-1\<close> or text read from a line.\<close>

datatype pyval = PInt int | PStr string

subsection \<open>\<^verbatim>\<open>str\<close> and \<^verbatim>\<open>int\<close>\<close>

definition digit_char :: "nat \<Rightarrow> char" where
  "digit_char d = ''0123456789'' ! d"

fun digits_of :: "nat \<Rightarrow> string" where
  "digits_of n =
     (if n < 10 then [digit_char n] else digits_of (n div 10) @ [digit_char (n mod 10)])"

declare digits_of.simps [simp del]

text \<open>\<^verbatim>\<open>str(i)\<close> for an integer.\<close>

definition py_str_int :: "int \<Rightarrow> string" where
  "py_str_int i = (if i < 0 then CHR ''-'' # digits_of (nat (- i)) else digits_of (nat i))"

text \<open>\<^verbatim>\<open>str(v)\<close> for a metadata value: text is rendered as it is.\<close>

fun py_str :: "pyval \<Rightarrow> string" where
  "py_str (PInt i) = py_str_int i"
| "py_str (PStr s) = s"

definition is_digit :: "char \<Rightarrow> bool" where
  "is_digit c = (c \<in> set ''0123456789'')"

text \<open>The value of a decimal digit: its position among the ten digits.\<close>

definition digit_val :: "char \<Rightarrow> nat" where
  "digit_val c = length (takeWhile (\<lambda>d. d \<noteq> c) ''0123456789'')"

text \<open>The characters \<^verbatim>\<open>int()\<close> skips around a literal, and those \<^verbatim>\<open>str.strip()\<close> removes.\<close>

definition int_isspace :: "char \<Rightarrow> bool" where
  "int_isspace c = (c \<in> set [CHR 0x09, CHR 0x0A, CHR 0x0B, CHR 0x0C, CHR 0x0D, CHR '' ''])"

definition str_isspace :: "char \<Rightarrow> bool" where
  "str_isspace c = (c \<in> set [CHR 0x09, CHR 0x0A, CHR 0x0B, CHR 0x0C, CHR 0x0D,
                               CHR 0x1C, CHR 0x1D, CHR 0x1E, CHR 0x1F, CHR '' ''])"

definition trim :: "(char \<Rightarrow> bool) \<Rightarrow> string \<Rightarrow> string" where
  "trim sp s = rev (dropWhile sp (rev (dropWhile sp s)))"

text \<open>\<^verbatim>\<open>s.strip()\<close>\<close>

definition strip :: "string \<Rightarrow> string" where
  "strip s = trim str_isspace s"

text \<open>Digits of an integer literal: single underscores may separate digits.\<close>

fun valid_int_body :: "string \<Rightarrow> bool" where
  "valid_int_body [] = False"
| "valid_int_body [c] = is_digit c"
| "valid_int_body (c # d # cs) =
     (is_digit c \<and> (if d = CHR ''_'' then valid_int_body cs else valid_int_body (d # cs)))"

fun digits_value :: "nat \<Rightarrow> string \<Rightarrow> nat" where
  "digits_value a [] = a"
| "digits_value a (c # cs) = digits_value (10 * a + digit_val c) cs"

definition int_body :: "string \<Rightarrow> error + int" where
  "int_body b =
     (if valid_int_body b
      then Inr (int (digits_value 0 (filter (\<lambda>c. c \<noteq> CHR ''_'') b)))
      else Inl ValueError)"

text \<open>\<^verbatim>\<open>int(s)\<close> for a string: surrounding blanks, an optional sign, decimal digits.\<close>

definition py_int :: "string \<Rightarrow> error + int" where
  "py_int s =
     (case trim int_isspace s of
        [] \<Rightarrow> Inl ValueError
      | c # r \<Rightarrow>
          if c = CHR ''-'' then map_sum id uminus (int_body r)
          else if c = CHR ''+'' then int_body r
          else int_body (c # r))"

subsection \<open>\<^verbatim>\<open>str.split\<close>, \<^verbatim>\<open>str.join\<close>, dictionaries\<close>

text \<open>\<^verbatim>\<open>s.split(c)\<close> for a one-character separator: always at least one part.\<close>

fun split :: "char \<Rightarrow> string \<Rightarrow> string list" where
  "split c [] = [[]]"
| "split c (x # xs) =
     (if x = c then [] # split c xs
      else (case split c xs of [] \<Rightarrow> [[x]] | w # ws \<Rightarrow> (x # w) # ws))"

text \<open>\<^verbatim>\<open>s.split(c, 1)\<close>: one part, or the text before and after the first separator.\<close>

definition split1 :: "char \<Rightarrow> string \<Rightarrow> string list" where
  "split1 c s =
     (if c \<in> set s then [takeWhile (\<lambda>x. x \<noteq> c) s, tl (dropWhile (\<lambda>x. x \<noteq> c) s)] else [s])"

text \<open>\<^verbatim>\<open>sep.join(parts)\<close>\<close>

fun join :: "string \<Rightarrow> string list \<Rightarrow> string" where
  "join sep [] = []"
| "join sep [p] = p"
| "join sep (p # q # ps) = p @ sep @ join sep (q # ps)"

text \<open>\<^verbatim>\<open>dict(pairs)\<close> for a list of lists: every element must have two items; a later
  pair replaces an earlier one with the same key.\<close>

fun dict_of :: "string list list \<Rightarrow> error + (string \<times> string) list" where
  "dict_of [] = Inr []"
| "dict_of ([k, v] # rest) = bind (dict_of rest) (\<lambda>d. Inr (if k \<in> fst ` set d then d else (k, v) # d))"
| "dict_of (_ # rest) = Inl ValueError"

text \<open>A name that no enclosing scope binds: reading it raises \<^verbatim>\<open>NameError\<close>.\<close>

definition unbound :: "string \<Rightarrow> error + 'a" where
  "unbound name = Inl (NameError name)"

section \<open>\<^verbatim>\<open>script/utils/utils.py\<close>: metadata and run identities\<close>

definition OBS_N_ERRORS_PER_BURST :: string where
  "OBS_N_ERRORS_PER_BURST = ''N_ERRORS_PER_BURST''"

definition OBS_PER_BIT_ERROR_COUNT :: string where
  "OBS_PER_BIT_ERROR_COUNT = ''PER_BIT_ERROR_COUNT''"

definition OBSERVABLES :: "string set" where
  "OBSERVABLES = {OBS_N_ERRORS_PER_BURST, OBS_PER_BIT_ERROR_COUNT}"

text \<open>
  The ten-element metadata list, indexed by \<^verbatim>\<open>MI_UID\<close> .. \<^verbatim>\<open>MI_OBS\<close>. The first five
  entries are integers (\<^verbatim>\<open>int(...)\<close> of the field, or \<^verbatim>\<open>-1\<close>); the last five are the
  field's text, or the integer \<^verbatim>\<open>-1\<close> when the field is absent or mixed.
\<close>

record run_metadata =
  MI_UID :: int
  MI_NW :: int
  MI_BL :: int
  MI_BCL :: int
  MI_PS :: int
  MI_EM :: pyval
  MI_CD :: pyval
  MI_DP :: pyval
  MI_CDP :: pyval
  MI_OBS :: pyval

definition run_uid_from_metadata_ignoring_fields :: "run_metadata \<Rightarrow> string list \<Rightarrow> string" where
  "run_uid_from_metadata_ignoring_fields m fields_to_combine =
     ''[DATA]''
     @ (if ''uid'' \<notin> set fields_to_combine then '' uid:'' @ py_str_int (MI_UID m) else '' uid:-1'')
     @ (if ''nw'' \<notin> set fields_to_combine then '' nw:'' @ py_str_int (MI_NW m) else '' nw:-1'')
     @ (if ''bl'' \<notin> set fields_to_combine then '' bl:'' @ py_str_int (MI_BL m) else '' bl:-1'')
     @ (if ''bcl'' \<notin> set fields_to_combine then '' bcl:'' @ py_str_int (MI_BCL m) else '' bcl:-1'')
     @ (if ''ps'' \<notin> set fields_to_combine then '' ps:'' @ py_str_int (MI_PS m) else '' ps:-1'')
     @ (if ''em'' \<notin> set fields_to_combine then '' em:'' @ py_str (MI_EM m) else '' em:-1'')
     @ (if ''cd'' \<notin> set fields_to_combine then '' cd:'' @ py_str (MI_CD m) else '' cd:-1'')
     @ (if ''dp'' \<notin> set fields_to_combine then '' dp:'' @ py_str (MI_DP m) else '' dp:-1'')
     @ (if ''cdp'' \<notin> set fields_to_combine then '' cdp:'' @ py_str (MI_CDP m) else '' cdp:-1'')
     @ (if ''obs'' \<notin> set fields_to_combine then '' obs:'' @ py_str (MI_OBS m) else '' obs:-1'')"

definition run_uid_from_metadata :: "run_metadata \<Rightarrow> string" where
  "run_uid_from_metadata m = run_uid_from_metadata_ignoring_fields m []"

text \<open>Two metadata lists used as concrete inputs: a line without \<^verbatim>\<open>em:\<close> and the same
  line with the field \<^verbatim>\<open>em:-1\<close>.\<close>

definition md_em_absent :: run_metadata where
  "md_em_absent =
     \<lparr>MI_UID = 7, MI_NW = 100, MI_BL = 256, MI_BCL = 768, MI_PS = 0,
      MI_EM = PInt (- 1), MI_CD = PStr ''ALL_TRUE_OR_ALL_ANTI'', MI_DP = PStr ''RANDOM'',
      MI_CDP = PInt (- 1), MI_OBS = PStr ''PER_BIT_ERROR_COUNT''\<rparr>"

definition md_em_text :: run_metadata where
  "md_em_text = md_em_absent\<lparr>MI_EM := PStr ''-1''\<rparr>"

section \<open>Histograms of the \<^verbatim>\<open>N_ERRORS_PER_BURST\<close> observable\<close>

text \<open>
  A histogram is a dictionary from the number of errors in a word to a count; the raw
  histogram maps it to the pair \<^verbatim>\<open>[re_count, ue_count]\<close>. Keys keep their insertion order.
\<close>

type_synonym histogram = "(int \<times> int) list"

type_synonym raw_histogram = "(int \<times> (int \<times> int)) list"

text \<open>
  \<^verbatim>\<open>if n_errs not in raw_histogram: raw_histogram[n_errs] = [0, 0]\<close>, then both counts are
  added.
\<close>

definition raw_histogram_add :: "int \<Rightarrow> int \<Rightarrow> int \<Rightarrow> raw_histogram \<Rightarrow> raw_histogram" where
  "raw_histogram_add n_errs re_count ue_count h =
     (case map_of h n_errs of
        None \<Rightarrow> AList.update n_errs (0 + re_count, 0 + ue_count) h
      | Some (r, u) \<Rightarrow> AList.update n_errs (r + re_count, u + ue_count) h)"

text \<open>\<^verbatim>\<open>if n_errs not in h: h[n_errs] = 0\<close>, then \<^verbatim>\<open>h[n_errs] += count\<close>.\<close>

definition histogram_add :: "int \<Rightarrow> int \<Rightarrow> histogram \<Rightarrow> histogram" where
  "histogram_add n_errs count h =
     (case map_of h n_errs of
        None \<Rightarrow> AList.update n_errs (0 + count) h
      | Some c \<Rightarrow> AList.update n_errs (c + count) h)"

text \<open>
  \<^verbatim>\<open>n_errs, re_count, ue_count = map(int, entry.split(':'))\<close>: the unpacking of one payload
  entry. A wrong number of items and a non-numeric item both raise \<^verbatim>\<open>ValueError\<close>.
\<close>

definition unpack_entry :: "string \<Rightarrow> error + (int \<times> int \<times> int)" where
  "unpack_entry entry =
     (case split CHR '':'' entry of
        [a, b, c] \<Rightarrow>
          bind (py_int a) (\<lambda>n_errs. bind (py_int b) (\<lambda>re_count. bind (py_int c) (\<lambda>ue_count.
            Inr (n_errs, re_count, ue_count))))
      | _ \<Rightarrow> Inl ValueError)"

text \<open>
  The body of the accumulation loop, shared verbatim by \<^verbatim>\<open>parse_einsim_output_line\<close> and
  \<^verbatim>\<open>combine_observation\<close> of \<^verbatim>\<open>utils/utils.py\<close> and by \<^verbatim>\<open>parse_all_files\<close> of \<^verbatim>\<open>utils.py\<close>.
  The arguments \<open>bcl\<close> and \<open>bl\<close> are what reading the bound of each assertion yields in
  the enclosing function: a value, or \<^verbatim>\<open>NameError\<close> where the name is bound nowhere.
\<close>

definition accumulate_entry ::
  "(error + int) \<Rightarrow> (error + int) \<Rightarrow> int \<times> int \<times> int
     \<Rightarrow> raw_histogram \<times> histogram \<times> histogram
     \<Rightarrow> error + (raw_histogram \<times> histogram \<times> histogram)" where
  "accumulate_entry bcl bl entry hists =
     (case (entry, hists) of ((n_errs, re_count, ue_count), (raw_histogram, re_histogram, ue_histogram)) \<Rightarrow>
        bind (if re_count > 0
              then bind bcl (\<lambda>bcl_v.
                     if n_errs \<le> bcl_v then Inr (histogram_add n_errs re_count re_histogram)
                     else Inl (AssertionError
                       (''Cannot have more errors in a burst_codeword than there are bits: errs:''
                          @ py_str_int n_errs @ '', bcl:'' @ py_str_int bcl_v)))
              else Inr re_histogram) (\<lambda>re_histogram'.
        bind (if ue_count > 0
              then bind bl (\<lambda>bl_v.
                     if n_errs \<le> bl_v then Inr (histogram_add n_errs ue_count ue_histogram)
                     else Inl (AssertionError
                       (''Cannot have more errors in a burst than there are bits: errs:''
                          @ py_str_int n_errs @ '', bl:'' @ py_str_int bl_v)))
              else Inr ue_histogram) (\<lambda>ue_histogram'.
        Inr (raw_histogram_add n_errs re_count ue_count raw_histogram, re_histogram', ue_histogram'))))"

text \<open>\<^verbatim>\<open>for n_errs, re_count, ue_count in data: ...\<close> over payload entries that are unpacked
  one at a time, as the loop reaches them.\<close>

fun accumulate_entries ::
  "(error + int) \<Rightarrow> (error + int) \<Rightarrow> string list
     \<Rightarrow> raw_histogram \<times> histogram \<times> histogram
     \<Rightarrow> error + (raw_histogram \<times> histogram \<times> histogram)" where
  "accumulate_entries bcl bl [] hists = Inr hists"
| "accumulate_entries bcl bl (entry # data) hists =
     bind (unpack_entry entry) (\<lambda>triple.
     bind (accumulate_entry bcl bl triple hists) (accumulate_entries bcl bl data))"

text \<open>
  \<^verbatim>\<open>float(i)\<close> on an integer, and the conversion of an integer operand of a float division:
  an integer that rounds to a double beyond the largest one, \<^verbatim>\<open>2**1024 - 2**971\<close>, raises
  \<^verbatim>\<open>OverflowError\<close>; rounding to nearest, these are the integers of magnitude
  \<^verbatim>\<open>2**1024 - 2**970\<close> and more. The value is the integer itself: the rounding of a double
  is not modelled.
\<close>

definition int_to_float :: "int \<Rightarrow> error + real" where
  "int_to_float i =
     (if \<bar>i\<bar> < 2 ^ 1024 - 2 ^ 970 then Inr (real_of_int i) else Inl OverflowError)"

text \<open>
  \<^verbatim>\<open>a / x\<close> for an integer \<open>a\<close> and a float \<open>x\<close>: the integer is converted first, then a
  zero divisor raises \<^verbatim>\<open>ZeroDivisionError\<close>.
\<close>

definition true_div :: "int \<Rightarrow> real \<Rightarrow> error + real" where
  "true_div a x =
     bind (int_to_float a) (\<lambda>numerator.
       if x = 0 then Inl ZeroDivisionError else Inr (numerator / x))"

text \<open>\<^verbatim>\<open>a / float(b)\<close> on integers: \<^verbatim>\<open>float(b)\<close> is evaluated before the division.\<close>

definition py_div :: "int \<Rightarrow> int \<Rightarrow> error + real" where
  "py_div a b = bind (int_to_float b) (true_div a)"

text \<open>
  The computation of RBER and UBER that follows the loop: the numerator is summed first,
  then the names of the denominator are read, then the quotient is taken.
\<close>

definition compute_rates ::
  "(error + int) \<Rightarrow> (error + int) \<Rightarrow> (error + int) \<Rightarrow> histogram \<Rightarrow> histogram
     \<Rightarrow> error + (real \<times> real)" where
  "compute_rates bcl ps bl re_histogram ue_histogram =
     bind (if re_histogram \<noteq> []
           then bind bcl (\<lambda>bcl_v. bind ps (\<lambda>ps_v.
                  py_div (sum_list (map (\<lambda>(n_errs, count). n_errs * count) re_histogram))
                         ((bcl_v - ps_v) * sum_list (map snd re_histogram))))
           else Inr (- 1)) (\<lambda>rber_calculated.
     bind (bind bl (\<lambda>bl_v.
             py_div (sum_list (map (\<lambda>(n_errs, count). n_errs * count) ue_histogram))
                    (bl_v * sum_list (map snd ue_histogram)))) (\<lambda>uber_calculated.
     Inr (rber_calculated, uber_calculated)))"

section \<open>\<^verbatim>\<open>script/utils/utils.py\<close>: runs and the line parser\<close>

datatype observation =
    N_errors_obs (rber_of: real) (uber_of: real) (re_data_of: histogram) (ue_data_of: histogram)
      (raw_data_of: raw_histogram)
  | Per_bit_obs (hist_databurst_of: "int list") (hist_codeburst_of: "int list")

record run =
  metadata :: run_metadata
  experiment_id :: "int option"
  uid :: string
  uid_ignoring_fields :: string
  observations :: "(string \<times> observation) list"

text \<open>\<^verbatim>\<open>-1 if key not in metadata_extracted else int(metadata_extracted[key])\<close>\<close>

definition int_field :: "(string \<times> string) list \<Rightarrow> string \<Rightarrow> error + int" where
  "int_field metadata_extracted key =
     (case map_of metadata_extracted key of None \<Rightarrow> Inr (- 1) | Some v \<Rightarrow> py_int v)"

text \<open>\<^verbatim>\<open>-1 if key not in metadata_extracted else metadata_extracted[key]\<close>\<close>

definition text_field :: "(string \<times> string) list \<Rightarrow> string \<Rightarrow> pyval" where
  "text_field metadata_extracted key =
     (case map_of metadata_extracted key of None \<Rightarrow> PInt (- 1) | Some v \<Rightarrow> PStr v)"

text \<open>Lines 70 to 85 of \<^verbatim>\<open>parse_einsim_output_line\<close>: the metadata list and the value of
  the mandatory \<^verbatim>\<open>obs\<close> field.\<close>

definition extract_metadata :: "string \<Rightarrow> error + (run_metadata \<times> string)" where
  "extract_metadata meta =
     (let meta_split = split CHR '' '' meta in
      bind (dict_of (map (split1 CHR '':'') (butlast meta_split))) (\<lambda>metadata_extracted.
      bind (int_field metadata_extracted ''uid'') (\<lambda>v_uid.
      bind (int_field metadata_extracted ''nw'') (\<lambda>v_nw.
      bind (int_field metadata_extracted ''bl'') (\<lambda>v_bl.
      bind (int_field metadata_extracted ''bcl'') (\<lambda>v_bcl.
      bind (int_field metadata_extracted ''ps'') (\<lambda>v_ps.
      (case map_of metadata_extracted ''obs'' of
         None \<Rightarrow> Inl (AssertionError ''No observational data for run'')
       | Some obs \<Rightarrow>
           Inr (\<lparr>MI_UID = v_uid, MI_NW = v_nw, MI_BL = v_bl, MI_BCL = v_bcl, MI_PS = v_ps,
                 MI_EM = text_field metadata_extracted ''em'',
                 MI_CD = text_field metadata_extracted ''cd'',
                 MI_DP = text_field metadata_extracted ''dp'',
                 MI_CDP = text_field metadata_extracted ''cdp'',
                 MI_OBS = PStr obs\<rparr>, obs)))))))))"

text \<open>
  Lines 116 to 154: the \<^verbatim>\<open>N_ERRORS_PER_BURST\<close> payload. The function binds none of the
  names \<^verbatim>\<open>bcl\<close>, \<^verbatim>\<open>bl\<close> and \<^verbatim>\<open>ps\<close> that its assertions and rates read, and the module
  has no such globals.
\<close>

definition parse_n_errors_per_burst :: "string \<Rightarrow> error + observation" where
  "parse_n_errors_per_burst raw_data =
     (let data = filter (\<lambda>entry. CHR '':'' \<in> set entry) (split CHR '' '' raw_data) in
      bind (accumulate_entries (unbound ''bcl'') (unbound ''bl'') data ([], [], []))
        (\<lambda>(raw_histogram, re_histogram, ue_histogram).
      bind (compute_rates (unbound ''bcl'') (unbound ''ps'') (unbound ''bl'') re_histogram ue_histogram)
        (\<lambda>(rber_calculated, uber_calculated).
      Inr (N_errors_obs rber_calculated uber_calculated re_histogram ue_histogram raw_histogram))))"

text \<open>\<^verbatim>\<open>[int(i) for i in parts if i]\<close>\<close>

fun int_list :: "string list \<Rightarrow> error + int list" where
  "int_list [] = Inr []"
| "int_list (i # rest) =
     (if i = [] then int_list rest
      else bind (py_int i) (\<lambda>v. bind (int_list rest) (\<lambda>vs. Inr (v # vs))))"

text \<open>Lines 156 to 165: the \<^verbatim>\<open>PER_BIT_ERROR_COUNT\<close> payload.\<close>

definition parse_per_bit_error_count :: "string \<Rightarrow> error + observation" where
  "parse_per_bit_error_count raw_data =
     (case split CHR '':'' raw_data of
        [raw_pre, raw_post] \<Rightarrow>
          bind (int_list (split CHR '' '' raw_pre)) (\<lambda>bit_hist_databurst.
          bind (int_list (split CHR '' '' (butlast raw_post))) (\<lambda>bit_hist_codeburst.
          Inr (Per_bit_obs bit_hist_databurst bit_hist_codeburst)))
      | _ \<Rightarrow> Inl ValueError)"

text \<open>
  Reading \<^verbatim>\<open>experiment_id\<close> in \<^verbatim>\<open>parse_einsim_output_line\<close>: the later statement
  \<^verbatim>\<open>experiment_id += 1\<close> makes the name local to the function, and nothing assigns it
  before the read.
\<close>

definition unbound_local :: "string \<Rightarrow> error + int" where
  "unbound_local name = Inl (UnboundLocalError name)"

text \<open>
  \<^verbatim>\<open>parse_einsim_output_line(line, fields_to_combine, is_experimental)\<close>: \<open>Inr None\<close> is
  the return value \<^verbatim>\<open>None\<close>. The warning printed for an unknown observable is not
  modelled.
\<close>

definition parse_einsim_output_line :: "string \<Rightarrow> string list \<Rightarrow> bool \<Rightarrow> error + run option" where
  "parse_einsim_output_line line fields_to_combine is_experimental =
     (if length line > 6 \<and> take 6 line = ''[DATA]'' then
        (case split CHR ''['' (strip (drop 7 line)) of
           [meta, raw_data] \<Rightarrow>
             bind (extract_metadata meta) (\<lambda>(metadata_v, obs).
             bind (if is_experimental
                   then bind (unbound_local ''experiment_id'') (\<lambda>cur_experiment_id.
                     Inr (Some cur_experiment_id,
                          run_uid_from_metadata metadata_v
                            @ ''_experiment_'' @ py_str_int cur_experiment_id,
                          run_uid_from_metadata_ignoring_fields metadata_v fields_to_combine
                            @ ''_experiment_'' @ py_str_int cur_experiment_id))
                   else Inr (None,
                          run_uid_from_metadata metadata_v,
                          run_uid_from_metadata_ignoring_fields metadata_v fields_to_combine))
               (\<lambda>(cur_experiment_id, run_uid, run_uid_ignoring_fields).
             if obs \<notin> OBSERVABLES then Inr None
             else
               bind (if obs = OBS_N_ERRORS_PER_BURST then parse_n_errors_per_burst raw_data
                     else parse_per_bit_error_count raw_data) (\<lambda>observation.
               Inr (Some \<lparr>metadata = metadata_v, experiment_id = cur_experiment_id,
                           uid = run_uid, uid_ignoring_fields = run_uid_ignoring_fields,
                           observations = [(obs, observation)]\<rparr>))))
         | _ \<Rightarrow> Inl ValueError)
      else Inr None)"

section \<open>\<^verbatim>\<open>script/utils/utils.py\<close>: combining runs\<close>

text \<open>
  \<^verbatim>\<open>for n_errs, re_count, ue_count in run_data['raw_data']\<close> iterates over the keys of the
  raw histogram, which are integers: unpacking one into three names raises \<^verbatim>\<open>TypeError\<close>.
\<close>

definition unpack_key :: "int \<Rightarrow> error + (int \<times> int \<times> int)" where
  "unpack_key n_errs = Inl TypeError"

fun accumulate_keys ::
  "run_metadata \<Rightarrow> int list \<Rightarrow> raw_histogram \<times> histogram \<times> histogram
     \<Rightarrow> error + (raw_histogram \<times> histogram \<times> histogram)" where
  "accumulate_keys md [] hists = Inr hists"
| "accumulate_keys md (key # keys) hists =
     bind (unpack_key key) (\<lambda>triple.
     bind (accumulate_entry (Inr (MI_BCL md)) (Inr (MI_BL md)) triple hists)
       (accumulate_keys md keys))"

text \<open>The loop over the runs of \<^verbatim>\<open>combine_observation\<close>, first branch.\<close>

fun combine_n_errors ::
  "string \<Rightarrow> run list \<Rightarrow> raw_histogram \<times> histogram \<times> histogram
     \<Rightarrow> error + (raw_histogram \<times> histogram \<times> histogram)" where
  "combine_n_errors observable [] hists = Inr hists"
| "combine_n_errors observable (run # runs) hists =
     (case map_of (observations run) observable of
        None \<Rightarrow> Inl KeyError
      | Some (Per_bit_obs _ _) \<Rightarrow> Inl KeyError
      | Some (N_errors_obs _ _ _ _ raw) \<Rightarrow>
          bind (accumulate_keys (metadata run) (map fst raw) hists)
            (combine_n_errors observable runs))"

text \<open>The loop over the runs of \<^verbatim>\<open>combine_observation\<close>, second branch.\<close>

fun combine_per_bit ::
  "string \<Rightarrow> run list \<Rightarrow> int list \<times> int list \<Rightarrow> error + (int list \<times> int list)" where
  "combine_per_bit observable [] hists = Inr hists"
| "combine_per_bit observable (run # runs) (bit_hist_databurst, bit_hist_codeburst) =
     (case map_of (observations run) observable of
        None \<Rightarrow> Inl KeyError
      | Some (N_errors_obs _ _ _ _ _) \<Rightarrow> Inl KeyError
      | Some (Per_bit_obs a_databurst a_codeburst) \<Rightarrow>
          if bit_hist_databurst \<noteq> [] \<or> bit_hist_codeburst \<noteq> [] then
            if length bit_hist_databurst \<noteq> length a_databurst
            then Inl (AssertionError ''Cannot combine different lengths'')
            else if length bit_hist_codeburst \<noteq> length a_codeburst
            then Inl (AssertionError ''Cannot combine different lengths'')
            else combine_per_bit observable runs
                   (map2 (+) bit_hist_databurst a_databurst, map2 (+) bit_hist_codeburst a_codeburst)
          else combine_per_bit observable runs
                 (bit_hist_databurst @ a_databurst, bit_hist_codeburst @ a_codeburst))"

definition combine_observation :: "string \<Rightarrow> run list \<Rightarrow> error + observation" where
  "combine_observation observable runs =
     (if observable = OBS_N_ERRORS_PER_BURST then
        bind (combine_n_errors observable runs ([], [], []))
          (\<lambda>(raw_histogram, re_histogram, ue_histogram).
        bind (compute_rates (unbound ''bcl'') (unbound ''ps'') (unbound ''bl'') re_histogram ue_histogram)
          (\<lambda>(rber_calculated, uber_calculated).
        Inr (N_errors_obs rber_calculated uber_calculated re_histogram ue_histogram raw_histogram)))
      else if observable = OBS_PER_BIT_ERROR_COUNT then
        bind (combine_per_bit observable runs ([], []))
          (\<lambda>(bit_hist_databurst, bit_hist_codeburst).
        Inr (Per_bit_obs bit_hist_databurst bit_hist_codeburst))
      else Inl (AssertionError (''Unimplemented observable:'' @ observable)))"

text \<open>
  \<^verbatim>\<open>combine_metadata_element(data, elem, mixed_pass, mixed_warn, mixed_error)\<close>. The
  argument \<open>elem\<close> selects entry \<^verbatim>\<open>elem\<close> of a metadata list; in the source it is the
  integer index, so that both diagnostic messages \<^verbatim>\<open>"..." + elem + "..."\<close> add an integer
  to a string and raise \<^verbatim>\<open>TypeError\<close> before anything is printed or asserted. Popping
  from the empty set raises \<^verbatim>\<open>KeyError\<close>.
\<close>

definition combine_metadata_element ::
  "run list \<Rightarrow> (run_metadata \<Rightarrow> 'a) \<Rightarrow> 'a option \<Rightarrow> 'a option \<Rightarrow> 'a option \<Rightarrow> error + 'a" where
  "combine_metadata_element data elem mixed_pass mixed_warn mixed_error =
     (case remdups (map (\<lambda>run. elem (metadata run)) data) of
        [] \<Rightarrow> Inl KeyError
      | [v] \<Rightarrow> Inr v
      | _ \<Rightarrow>
          if mixed_error \<noteq> None then Inl TypeError
          else if mixed_warn \<noteq> None then Inl TypeError
          else (case mixed_pass of
                  Some v \<Rightarrow> Inr v
                | None \<Rightarrow> Inl (AssertionError ''Must define either warn, error, or pass on mixed'')))"

text \<open>\<^verbatim>\<open>for observable in observables: combined_run['observations'][observable] = ...\<close>\<close>

fun combine_observations :: "string list \<Rightarrow> run list \<Rightarrow> error + (string \<times> observation) list" where
  "combine_observations [] data = Inr []"
| "combine_observations (observable # rest) data =
     bind (combine_observation observable data) (\<lambda>ob.
     bind (combine_observations rest data) (\<lambda>obs. Inr ((observable, ob) # obs)))"

text \<open>
  \<^verbatim>\<open>combine_runs(data, fields_to_combine)\<close>. The name \<^verbatim>\<open>run\<close> read after the metadata is
  the function's loop variable: the loop over \<^verbatim>\<open>data[1:]\<close> binds it when there are two
  runs or more, the loop that totals the measured bits binds it when no word count is
  \<^verbatim>\<open>-1\<close>; otherwise it is unbound. The text of the first assertion's message is shortened.
\<close>

definition combine_runs :: "run list \<Rightarrow> string list \<Rightarrow> error + run" where
  "combine_runs data fields_to_combine =
     (if list_ex (\<lambda>run. uid_ignoring_fields (hd data) \<noteq> uid_ignoring_fields run) (drop 1 data)
      then Inl (AssertionError (uid_ignoring_fields (hd data) @ '' != ''))
      else
        bind (combine_metadata_element data MI_UID (Some (- 1)) None None) (\<lambda>c_uid.
        let word_list = map (\<lambda>run. MI_NW (metadata run)) data;
            invalid_word_list = list_ex (\<lambda>i. i = - 1) word_list
        in
        bind (if \<not> invalid_word_list then Inr (sum_list word_list)
              else combine_metadata_element data MI_NW (Some (- 1)) None None) (\<lambda>c_nw.
        bind (combine_metadata_element data MI_BL None None (Some (- 1))) (\<lambda>c_bl.
        bind (combine_metadata_element data MI_BCL None (Some (- 1)) None) (\<lambda>c_bcl.
        bind (combine_metadata_element data MI_PS None (Some (- 1)) None) (\<lambda>c_ps.
        bind (combine_metadata_element data MI_EM (Some (PInt (- 1))) None None) (\<lambda>c_em.
        bind (combine_metadata_element data MI_CD (Some (PInt (- 1))) None None) (\<lambda>c_cd.
        bind (combine_metadata_element data MI_DP (Some (PInt (- 1))) None None) (\<lambda>c_dp.
        bind (combine_metadata_element data MI_CDP (Some (PInt (- 1))) None None) (\<lambda>c_cdp.
        bind (combine_metadata_element data MI_OBS None None (Some (PInt (- 1)))) (\<lambda>c_obs.
        let combined_metadata =
              \<lparr>MI_UID = c_uid, MI_NW = c_nw, MI_BL = c_bl, MI_BCL = c_bcl, MI_PS = c_ps,
               MI_EM = c_em, MI_CD = c_cd, MI_DP = c_dp, MI_CDP = c_cdp, MI_OBS = c_obs\<rparr>
        in
        bind (if 2 \<le> length data \<or> \<not> invalid_word_list then Inr (last data)
              else Inl (UnboundLocalError ''run'')) (\<lambda>run.
        bind (combine_observations (remdups (map fst (observations run))) data) (\<lambda>combined_observations.
        Inr \<lparr>metadata = combined_metadata, experiment_id = Some (- 1),
             uid = run_uid_from_metadata combined_metadata,
             uid_ignoring_fields =
               run_uid_from_metadata_ignoring_fields combined_metadata fields_to_combine,
             observations = combined_observations\<rparr>)))))))))))))"

section \<open>\<^verbatim>\<open>script/utils/utils.py\<close>: output\<close>

text \<open>\<^verbatim>\<open>for i in hist: out_str += str(i) + ' '\<close>\<close>

definition spaced :: "int list \<Rightarrow> string" where
  "spaced hist = concat (map (\<lambda>i. py_str_int i @ '' '') hist)"

text \<open>
  The body of the loop of \<^verbatim>\<open>get_output_string\<close> for one observable. In the first branch
  the name \<^verbatim>\<open>val\<close> is read; the function binds no such name.
\<close>

definition output_observable :: "run \<Rightarrow> string \<Rightarrow> observation \<Rightarrow> string \<Rightarrow> error + string" where
  "output_observable run_v observable ob out_str =
     (let out_str = out_str @ uid run_v @ '' obs:'' @ observable in
      if observable = OBS_N_ERRORS_PER_BURST then
        bind (unbound ''val'') (\<lambda>val.
          Inr (out_str @ '' [ ''
               @ join '' '' (map (\<lambda>(n, (r, u)). join '':'' [py_str_int n, py_str_int r, py_str_int u])
                               (raw_data_of val))
               @ '' ]'' @ [CHR 0x0A]))
      else if observable = OBS_PER_BIT_ERROR_COUNT then
        (case ob of
           Per_bit_obs databurst codeburst \<Rightarrow>
             Inr (out_str @ '' [ '' @ spaced databurst @ '': '' @ spaced codeburst
                  @ '']'' @ [CHR 0x0A])
         | N_errors_obs _ _ _ _ _ \<Rightarrow> Inl KeyError)
      else Inr out_str)"

fun output_observables :: "run \<Rightarrow> (string \<times> observation) list \<Rightarrow> string \<Rightarrow> error + string" where
  "output_observables run_v [] out_str = Inr out_str"
| "output_observables run_v ((observable, ob) # rest) out_str =
     bind (output_observable run_v observable ob out_str) (output_observables run_v rest)"

definition get_output_string :: "run \<Rightarrow> error + string" where
  "get_output_string run_v =
     (if observations run_v = []
      then Inl (AssertionError ''Must have at least one observation in the data'')
      else output_observables run_v (observations run_v) [])"

text \<open>The lines of an output string, each with its final newline, as a reader of the
  written file gets them from \<^verbatim>\<open>readline\<close>.\<close>

fun lines_of :: "string \<Rightarrow> string list" where
  "lines_of [] = []"
| "lines_of (c # cs) =
     (if c = CHR 0x0A then [c] # lines_of cs
      else (case lines_of cs of [] \<Rightarrow> [[c]] | l # ls \<Rightarrow> (c # l) # ls))"

section \<open>\<^verbatim>\<open>script/utils/utils.py\<close>: the streaming reducer\<close>

text \<open>
  The state that \<^verbatim>\<open>parse_files_incremental\<close> changes: the dictionary \<^verbatim>\<open>ecc_codes\<close> it
  returns, the malformed-line warnings it prints (file name and line number), and
  whatever the caller's callback accumulates through its extra arguments.
\<close>

record ('j, 's) reducer_state =
  ecc_codes :: "(string \<times> 'j) list"
  warnings :: "(string \<times> nat) list"
  callback_state :: 's

text \<open>
  The \<^verbatim>\<open>while line:\<close> loop over the lines of one file, as \<^verbatim>\<open>readline\<close> returns them. Only
  the call of \<^verbatim>\<open>parse_einsim_output_line\<close> stands inside the \<^verbatim>\<open>try\<close>; the callback and
  \<^verbatim>\<open>json.loads\<close> are called after it. \<^verbatim>\<open>json.loads\<close> and the callback are parameters; the
  callback's second argument is the local \<^verbatim>\<open>ecc_code\<close>, which stays \<^verbatim>\<open>None\<close>. The
  progress display is not modelled.
\<close>

fun reduce_lines ::
  "(string \<Rightarrow> error + 'j) \<Rightarrow> (run \<Rightarrow> 'j option \<Rightarrow> 's \<Rightarrow> error + 's) \<Rightarrow> bool \<Rightarrow> string list
     \<Rightarrow> string \<Rightarrow> string list \<Rightarrow> nat \<Rightarrow> int \<Rightarrow> ('j, 's) reducer_state
     \<Rightarrow> error + ('j, 's) reducer_state" where
  "reduce_lines json_loads callback is_experimental fields_to_combine infilename
       [] line_num malformed_line st = Inr st"
| "reduce_lines json_loads callback is_experimental fields_to_combine infilename
       (line # rest) line_num malformed_line st =
     (case parse_einsim_output_line line fields_to_combine is_experimental of
        Inl KeyboardInterrupt \<Rightarrow> Inl KeyboardInterrupt
      | Inl e \<Rightarrow>
          (let st1 = (if malformed_line = - 1
                      then st\<lparr>warnings := warnings st @ [(infilename, Suc line_num)]\<rparr> else st);
               malformed_line1 = (if malformed_line = - 1 then int (Suc line_num) else malformed_line)
           in
           bind (if take 5 line = ''[ECC]''
                 then bind (json_loads (drop 6 line)) (\<lambda>j.
                        Inr (st1\<lparr>ecc_codes := AList.update infilename j (ecc_codes st1)\<rparr>))
                 else Inr st1)
             (reduce_lines json_loads callback is_experimental fields_to_combine infilename
                rest (Suc line_num) malformed_line1))
      | Inr (Some raw_data) \<Rightarrow>
          bind (callback raw_data None (callback_state st)) (\<lambda>s.
            reduce_lines json_loads callback is_experimental fields_to_combine infilename
              rest (Suc line_num) malformed_line (st\<lparr>callback_state := s\<rparr>))
      | Inr None \<Rightarrow>
          bind (if take 5 line = ''[ECC]''
                then bind (json_loads (drop 6 line)) (\<lambda>j.
                       Inr (st\<lparr>ecc_codes := AList.update infilename j (ecc_codes st)\<rparr>))
                else Inr st)
            (reduce_lines json_loads callback is_experimental fields_to_combine infilename
               rest (Suc line_num) malformed_line))"

text \<open>
  \<^verbatim>\<open>parse_files_incremental(infilenames, is_experimental, fields_to_combine, callback,
  *callback_args)\<close>, on files given by name and lines.
\<close>

fun parse_files_incremental ::
  "(string \<Rightarrow> error + 'j) \<Rightarrow> (run \<Rightarrow> 'j option \<Rightarrow> 's \<Rightarrow> error + 's)
     \<Rightarrow> (string \<times> string list) list \<Rightarrow> bool \<Rightarrow> string list \<Rightarrow> ('j, 's) reducer_state
     \<Rightarrow> error + ('j, 's) reducer_state" where
  "parse_files_incremental json_loads callback [] is_experimental fields_to_combine st = Inr st"
| "parse_files_incremental json_loads callback ((infilename, lines) # infiles)
       is_experimental fields_to_combine st =
     bind (reduce_lines json_loads callback is_experimental fields_to_combine infilename
             lines 0 (- 1) st)
       (parse_files_incremental json_loads callback infiles is_experimental fields_to_combine)"

text \<open>Concrete inputs: two well-formed lines, their runs, and stand-ins for \<^verbatim>\<open>json.loads\<close>
  and the callback of \<^verbatim>\<open>aggregate_output.py\<close>.\<close>

definition line_per_bit :: string where
  "line_per_bit =
     ''[DATA] uid:1 nw:10 bl:4 bcl:12 ps:0 obs:PER_BIT_ERROR_COUNT [ 1 2 3 4 : 0 0 1 0 0 0 0 0 0 0 0 0 ]''
       @ [CHR 0x0A]"

definition line_n_errors :: string where
  "line_n_errors =
     ''[DATA] uid:1 nw:10 bl:256 bcl:768 ps:0 obs:N_ERRORS_PER_BURST [ 0:9998:10000 1:2:0 ]''
       @ [CHR 0x0A]"

text \<open>Lines of that observable without uncorrectable events: one whose errors were all
  corrected, and one that counts no event at all.\<close>

definition line_all_corrected :: string where
  "line_all_corrected =
     ''[DATA] uid:1 nw:10 bl:256 bcl:768 ps:0 obs:N_ERRORS_PER_BURST [ 0:9998:0 1:2:0 ]''
       @ [CHR 0x0A]"

definition line_no_events :: string where
  "line_no_events =
     ''[DATA] uid:1 nw:10 bl:256 bcl:768 ps:0 obs:N_ERRORS_PER_BURST [ 0:0:0 ]''
       @ [CHR 0x0A]"

definition md_n_errors :: run_metadata where
  "md_n_errors =
     \<lparr>MI_UID = 1, MI_NW = 10, MI_BL = 256, MI_BCL = 768, MI_PS = 0,
      MI_EM = PInt (- 1), MI_CD = PInt (- 1), MI_DP = PInt (- 1), MI_CDP = PInt (- 1),
      MI_OBS = PStr ''N_ERRORS_PER_BURST''\<rparr>"

definition run_n_errors :: run where
  "run_n_errors =
     \<lparr>metadata = md_n_errors, experiment_id = None,
      uid = run_uid_from_metadata md_n_errors,
      uid_ignoring_fields = run_uid_from_metadata_ignoring_fields md_n_errors [''bl'', ''bcl''],
      observations =
        [(''N_ERRORS_PER_BURST'',
          N_errors_obs (2 / 7680000) 0 [(0, 9998), (1, 2)] [(0, 10000)]
            [(0, (9998, 10000)), (1, (2, 0))])]\<rparr>"

definition run_other_bl :: run where
  "run_other_bl = run_n_errors\<lparr>metadata := md_n_errors\<lparr>MI_BL := 128\<rparr>\<rparr>"

definition run_other_bcl :: run where
  "run_other_bcl = run_n_errors\<lparr>metadata := md_n_errors\<lparr>MI_BCL := 1792\<rparr>\<rparr>"

definition json_stub :: "string \<Rightarrow> error + string" where
  "json_stub payload = (if payload = ''{}'' @ [CHR 0x0A] then Inr ''{}'' else Inl ValueError)"

definition collect :: "run \<Rightarrow> string option \<Rightarrow> run list \<Rightarrow> error + run list" where
  "collect data ecc_code raw_data = Inr (raw_data @ [data])"

section \<open>\<^verbatim>\<open>script/utils.py\<close>: the positional line format\<close>

text \<open>
  The metadata list \<^verbatim>\<open>[ecc_category, p, t, k, n, m, rber, bl, bcl, ps, ed, cd, dp]\<close> of a
  line; \<^verbatim>\<open>all_metadata\<close> is the same list without the permutation \<^verbatim>\<open>p\<close>. The entry
  \<^verbatim>\<open>rber\<close> is a Python float: its type \<open>'f\<close>, the conversion \<^verbatim>\<open>float(s)\<close> and the rendering
  \<^verbatim>\<open>str(x)\<close> are parameters of the functions that need them.
\<close>

record 'f all_metadata =
  am_ecc_category :: string
  am_t :: int
  am_k :: int
  am_n :: int
  am_m :: int
  am_rber :: 'f
  am_bl :: int
  am_bcl :: int
  am_ps :: int
  am_ed :: string
  am_cd :: string
  am_dp :: string

record 'f legacy_metadata = "'f all_metadata" +
  am_p :: int

text \<open>\<^verbatim>\<open>meta_split[i]\<close>, then a slice of it, converted.\<close>

definition item :: "string list \<Rightarrow> nat \<Rightarrow> error + string" where
  "item meta_split i = (if i < length meta_split then Inr (meta_split ! i) else Inl IndexError)"

definition int_item :: "string list \<Rightarrow> nat \<Rightarrow> nat \<Rightarrow> error + int" where
  "int_item meta_split i from = bind (item meta_split i) (\<lambda>s. py_int (drop from s))"

definition text_item :: "string list \<Rightarrow> nat \<Rightarrow> nat \<Rightarrow> error + string" where
  "text_item meta_split i from = bind (item meta_split i) (\<lambda>s. Inr (drop from s))"

text \<open>
  The assignments of one branch of \<^verbatim>\<open>parse_einsim_output_line\<close>, in the order of the
  source. \<open>with_m\<close> says whether the field \<^verbatim>\<open>m:\<close> is read from position 5 and shifts what
  follows by one: never for \<^verbatim>\<open>REP\<close> and \<^verbatim>\<open>HSC\<close>, always for \<^verbatim>\<open>BCH\<close>, and for \<^verbatim>\<open>UNK\<close> when
  \<^verbatim>\<open>meta_split[5][0] == 'm'\<close>, which is tested after \<^verbatim>\<open>n\<close> is read.
\<close>

definition positional_metadata ::
  "(string \<Rightarrow> error + 'f) \<Rightarrow> string \<Rightarrow> string list \<Rightarrow> (error + bool) \<Rightarrow> error + 'f legacy_metadata" where
  "positional_metadata py_float ecc_category meta_split with_m =
     bind (int_item meta_split 1 2) (\<lambda>v_p.
     bind (int_item meta_split 2 2) (\<lambda>v_t.
     bind (int_item meta_split 3 2) (\<lambda>v_k.
     bind (int_item meta_split 4 2) (\<lambda>v_n.
     bind with_m (\<lambda>has_m.
     bind (if has_m then int_item meta_split 5 2 else Inr (- 1)) (\<lambda>v_m.
     let off = (if has_m then 1 else 0) in
     bind (bind (text_item meta_split (5 + off) 5) py_float) (\<lambda>v_rber.
     bind (int_item meta_split (6 + off) 3) (\<lambda>v_bl.
     bind (int_item meta_split (7 + off) 4) (\<lambda>v_bcl.
     bind (int_item meta_split (8 + off) 3) (\<lambda>v_ps.
     bind (text_item meta_split (9 + off) 3) (\<lambda>v_ed.
     bind (text_item meta_split (10 + off) 3) (\<lambda>v_cd.
     bind (text_item meta_split (11 + off) 3) (\<lambda>v_dp.
     Inr \<lparr>am_ecc_category = ecc_category, am_t = v_t, am_k = v_k, am_n = v_n, am_m = v_m,
          am_rber = v_rber, am_bl = v_bl, am_bcl = v_bcl, am_ps = v_ps,
          am_ed = v_ed, am_cd = v_cd, am_dp = v_dp, am_p = v_p\<rparr>)))))))))))))"

text \<open>
  \<^verbatim>\<open>parse_einsim_output_line(line)\<close> of \<^verbatim>\<open>utils.py\<close>. The payload entries are returned
  unconverted (the source returns lazy \<^verbatim>\<open>map\<close> objects). The branch for an unknown
  category builds its warning from the names \<^verbatim>\<open>line_num\<close> and \<^verbatim>\<open>infilename\<close>, which the
  function does not bind.
\<close>

definition legacy_parse_einsim_output_line ::
  "(string \<Rightarrow> error + 'f) \<Rightarrow> string \<Rightarrow> error + ('f legacy_metadata \<times> string list) option" where
  "legacy_parse_einsim_output_line py_float line =
     (if length line > 6 \<and> take 6 line = ''[DATA]'' then
        (case split CHR ''['' (strip (drop 7 line)) of
           [meta, raw_data] \<Rightarrow>
             (let meta_split = split CHR '' '' meta;
                  ecc_category = butlast (hd meta_split)
              in
              bind (if ecc_category = ''REP'' then
                      positional_metadata py_float ecc_category meta_split (Inr False)
                    else if ecc_category = ''HSC'' then
                      positional_metadata py_float ecc_category meta_split (Inr False)
                    else if ecc_category = ''BCH'' then
                      positional_metadata py_float ecc_category meta_split (Inr True)
                    else if ecc_category = ''UNK'' then
                      positional_metadata py_float ecc_category meta_split
                        (bind (item meta_split 5) (\<lambda>s.
                           case s of [] \<Rightarrow> Inl IndexError | c # _ \<Rightarrow> Inr (c = CHR ''m'')))
                    else unbound ''line_num'') (\<lambda>metadata_v.
              Inr (Some (metadata_v,
                         filter (\<lambda>entry. CHR '':'' \<in> set entry) (split CHR '' '' raw_data)))))
         | _ \<Rightarrow> Inl ValueError)
      else Inr None)"

text \<open>
  \<^verbatim>\<open>parse_einsim_output_file(infilename)\<close> on the lines of the file: a line whose parse
  raises is skipped (the warning printed for the first of them is not modelled).
\<close>

fun legacy_parse_einsim_output_file ::
  "(string \<Rightarrow> error + 'f) \<Rightarrow> string list \<Rightarrow> error + ('f legacy_metadata \<times> string list) list" where
  "legacy_parse_einsim_output_file py_float [] = Inr []"
| "legacy_parse_einsim_output_file py_float (line # rest) =
     (case legacy_parse_einsim_output_line py_float line of
        Inl KeyboardInterrupt \<Rightarrow> Inl KeyboardInterrupt
      | Inl _ \<Rightarrow> legacy_parse_einsim_output_file py_float rest
      | Inr None \<Rightarrow> legacy_parse_einsim_output_file py_float rest
      | Inr (Some parsed_line) \<Rightarrow>
          bind (legacy_parse_einsim_output_file py_float rest) (\<lambda>dirty_data.
            Inr (parsed_line # dirty_data)))"

text \<open>\<^verbatim>\<open>run_uid_from_metadata(metadata)\<close> of \<^verbatim>\<open>utils.py\<close>: the permutation is rendered as
  \<^verbatim>\<open>-1\<close>.\<close>

definition legacy_run_uid_from_metadata :: "('f \<Rightarrow> string) \<Rightarrow> 'f legacy_metadata \<Rightarrow> string" where
  "legacy_run_uid_from_metadata str_float md =
     (let fields =
            '' bl:'' @ py_str_int (am_bl md) @ '' bcl:'' @ py_str_int (am_bcl md)
            @ '' ps:'' @ py_str_int (am_ps md) @ '' ed:'' @ am_ed md @ '' cd:'' @ am_cd md
            @ '' dp:'' @ am_dp md;
          head = '' p:-1'' @ '' t:'' @ py_str_int (am_t md) @ '' k:'' @ py_str_int (am_k md)
            @ '' n:'' @ py_str_int (am_n md)
      in
      if am_ecc_category md = ''REP'' then
        ''[DATA]'' @ '' REP:'' @ head @ '' rber:'' @ str_float (am_rber md) @ fields
      else if am_ecc_category md = ''HSC'' then
        ''[DATA]'' @ '' HSC:'' @ head @ '' rber:'' @ str_float (am_rber md) @ fields
      else if am_ecc_category md = ''BCH'' then
        ''[DATA]'' @ '' BCH:'' @ head @ '' m:'' @ py_str_int (am_m md)
          @ '' rber:'' @ str_float (am_rber md) @ fields
      else if am_ecc_category md = ''UNK'' then
        ''[DATA]'' @ '' UNK:'' @ '' bl:'' @ py_str_int (am_bl md)
      else ''[DATA]'')"

text \<open>An entry of the dictionary that \<^verbatim>\<open>parse_all_files\<close> returns.\<close>

record 'f legacy_run =
  lr_metadata :: "'f all_metadata"
  lr_p :: "int list"
  lr_raw_data :: raw_histogram
  lr_rber :: real
  lr_uber :: real
  lr_re_data :: histogram
  lr_ue_data :: histogram

text \<open>
  First loop of \<^verbatim>\<open>parse_all_files\<close>: the parsed lines of all files are grouped by
  identity; \<^verbatim>\<open>experiment_id\<close> counts the lines of an experimental input.
\<close>

fun group_runs ::
  "('f \<Rightarrow> string) \<Rightarrow> bool \<Rightarrow> ('f legacy_metadata \<times> string list) list
     \<Rightarrow> (string \<times> ('f all_metadata \<times> string list list \<times> int list)) list \<times> nat
     \<Rightarrow> (string \<times> ('f all_metadata \<times> string list list \<times> int list)) list \<times> nat" where
  "group_runs str_float experimental [] acc = acc"
| "group_runs str_float experimental ((metadata_v, data) # dirty_data) (raw_data, cur_experiment_id) =
     (let run_uid = legacy_run_uid_from_metadata str_float metadata_v
            @ (if experimental then ''_experiment_'' @ py_str_int (int cur_experiment_id) else []);
          next_experiment_id = (if experimental then Suc cur_experiment_id else cur_experiment_id);
          raw_data1 =
            (case map_of raw_data run_uid of
               None \<Rightarrow>
                 AList.update run_uid (all_metadata.truncate metadata_v, [data], [am_p metadata_v]) raw_data
             | Some (all_md, datas, ps) \<Rightarrow>
                 AList.update run_uid (all_md, datas @ [data], ps @ [am_p metadata_v]) raw_data)
      in group_runs str_float experimental dirty_data (raw_data1, next_experiment_id))"

fun group_files ::
  "(string \<Rightarrow> error + 'f) \<Rightarrow> ('f \<Rightarrow> string) \<Rightarrow> bool \<Rightarrow> string list list
     \<Rightarrow> (string \<times> ('f all_metadata \<times> string list list \<times> int list)) list \<times> nat
     \<Rightarrow> error + ((string \<times> ('f all_metadata \<times> string list list \<times> int list)) list \<times> nat)" where
  "group_files py_float str_float experimental [] acc = Inr acc"
| "group_files py_float str_float experimental (file # files) acc =
     bind (legacy_parse_einsim_output_file py_float file) (\<lambda>dirty_data.
       group_files py_float str_float experimental files
         (group_runs str_float experimental dirty_data acc))"

text \<open>
  Second loop of \<^verbatim>\<open>parse_all_files\<close>, for one identity: the histograms over the payloads
  of all its lines, then RBER and UBER. Here \<^verbatim>\<open>bcl\<close>, \<^verbatim>\<open>bl\<close> and \<^verbatim>\<open>ps\<close> are bound, from the
  metadata.
\<close>

definition combine_histograms ::
  "'f all_metadata \<times> string list list \<times> int list \<Rightarrow> error + 'f legacy_run" where
  "combine_histograms components =
     (case components of (all_md, datas, ps) \<Rightarrow>
        bind (accumulate_entries (Inr (am_bcl all_md)) (Inr (am_bl all_md)) (concat datas) ([], [], []))
          (\<lambda>(raw_histogram, re_histogram, ue_histogram).
        bind (compute_rates (Inr (am_bcl all_md)) (Inr (am_ps all_md)) (Inr (am_bl all_md))
                re_histogram ue_histogram)
          (\<lambda>(rber_calculated, uber_calculated).
        Inr \<lparr>lr_metadata = all_md, lr_p = ps, lr_raw_data = raw_histogram,
             lr_rber = rber_calculated, lr_uber = uber_calculated,
             lr_re_data = re_histogram, lr_ue_data = ue_histogram\<rparr>)))"

fun combine_all ::
  "(string \<times> ('f all_metadata \<times> string list list \<times> int list)) list
     \<Rightarrow> error + (string \<times> 'f legacy_run) list" where
  "combine_all [] = Inr []"
| "combine_all ((run_uid, components) # rest) =
     bind (combine_histograms components) (\<lambda>r.
     bind (combine_all rest) (\<lambda>rs. Inr ((run_uid, r) # rs)))"

text \<open>\<^verbatim>\<open>parse_all_files(infilenames, experimental)\<close>, on the lines of each file.\<close>

definition parse_all_files ::
  "(string \<Rightarrow> error + 'f) \<Rightarrow> ('f \<Rightarrow> string) \<Rightarrow> string list list \<Rightarrow> bool
     \<Rightarrow> error + (string \<times> 'f legacy_run) list" where
  "parse_all_files py_float str_float infiles experimental =
     bind (group_files py_float str_float experimental infiles ([], 0)) (\<lambda>(raw_data, cur_experiment_id).
       combine_all raw_data)"

text \<open>The example line of the source's comments, and stand-ins for \<^verbatim>\<open>float\<close> and \<^verbatim>\<open>str\<close> on
  floats that know its \<^verbatim>\<open>rber\<close> field.\<close>

definition example_line :: string where
  "example_line =
     ''[DATA] REP: p:584576191 t:1 k:4 n:12 rber:1e-06 bl:256 bcl:768 ps:0 ed:UNIFORM_RANDOM cd:ALL_TRUE_OR_ALL_ANTI dp:RANDOM [ 0:9998:10000 1:2:0 ]''"

text \<open>The example line with every error corrected: no uncorrectable event.\<close>

definition example_line_all_corrected :: string where
  "example_line_all_corrected =
     ''[DATA] REP: p:584576191 t:1 k:4 n:12 rber:1e-06 bl:256 bcl:768 ps:0 ed:UNIFORM_RANDOM cd:ALL_TRUE_OR_ALL_ANTI dp:RANDOM [ 0:9998:0 1:2:0 ]''"

definition float_stub :: "string \<Rightarrow> error + real" where
  "float_stub s = (if s = ''1e-06'' then Inr (1 / 1000000) else Inl ValueError)"

definition str_float_stub :: "real \<Rightarrow> string" where
  "str_float_stub x = (if x = 1 / 1000000 then ''1e-06'' else ''?'')"

section \<open>\<^verbatim>\<open>script/ein/ein.py\<close>: the likelihood callback and the best models\<close>

definition max_n_models_to_plot :: nat where
  "max_n_models_to_plot = 20"

text \<open>
  The module's global dictionaries, keyed by the identity of the experiment:
  \<^verbatim>\<open>log_probabilities[exp_uid][sim_uid]\<close> holds the pair \<^verbatim>\<open>[log_probs, s_xlabel]\<close> of a model,
  \<^verbatim>\<open>top_n_models_heapq[exp_uid]\<close> the heap of pairs \<^verbatim>\<open>(sim_max_logprob, sim_uid)\<close>,
  \<^verbatim>\<open>top_n_models_data[exp_uid]\<close> the experiment's data and the dictionary \<^verbatim>\<open>sims\<close> of the
  retained models, each a triple \<^verbatim>\<open>(log_probs, s_xlabel, sim_data)\<close>.
\<close>

record 'f ein_state =
  log_probabilities :: "(string \<times> (string \<times> (real list \<times> string)) list) list"
  top_n_models_heapq :: "(string \<times> (real \<times> string) list) list"
  top_n_models_data ::
    "(string \<times> ('f legacy_run \<times> (string \<times> (real list \<times> string \<times> 'f legacy_run)) list)) list"

text \<open>
  The heap of the \<^verbatim>\<open>heapq\<close> library, by its contract: the items are tuples ordered
  lexicographically, \<^verbatim>\<open>heap[0]\<close> is the smallest and \<^verbatim>\<open>heappop\<close> removes it. The list is
  kept in ascending order here; the source reads nothing of the heap but its length,
  \<^verbatim>\<open>heap[0]\<close> and the item popped.
\<close>

definition heappush :: "(real \<times> string) list \<Rightarrow> real \<times> string \<Rightarrow> (real \<times> string) list" where
  "heappush heap heapitem = insort heapitem heap"

definition heappop ::
  "(real \<times> string) list \<Rightarrow> error + ((real \<times> string) \<times> (real \<times> string) list)" where
  "heappop heap =
     (case heap of [] \<Rightarrow> Inl IndexError | heapitem # heap1 \<Rightarrow> Inr (heapitem, heap1))"

text \<open>\<^verbatim>\<open>np.max(log_probs)\<close>: an empty sequence raises \<^verbatim>\<open>ValueError\<close>.\<close>

definition np_max :: "real list \<Rightarrow> error + real" where
  "np_max log_probs = (case log_probs of [] \<Rightarrow> Inl ValueError | x # xs \<Rightarrow> Inr (fold max xs x))"

text \<open>
  Lines 112 to 117 of \<^verbatim>\<open>callback\<close>: the model enters when fewer than
  \<^verbatim>\<open>max_n_models_to_plot\<close> models are kept or when its score exceeds the smallest kept
  score; at capacity the smallest item is popped and its entry removed from \<^verbatim>\<open>sims\<close>
  (\<^verbatim>\<open>dict.pop\<close> raises \<^verbatim>\<open>KeyError\<close> for a missing key).
\<close>

definition update_top_n ::
  "(real \<times> string) list \<times> (string \<times> 'v) list \<Rightarrow> real \<Rightarrow> string \<Rightarrow> 'v
     \<Rightarrow> error + ((real \<times> string) list \<times> (string \<times> 'v) list)" where
  "update_top_n kept sim_max_logprob sim_uid entry =
     (case kept of (heap, sims) \<Rightarrow>
        if length heap < max_n_models_to_plot \<or> fst (hd heap) < sim_max_logprob then
          bind (if length heap = max_n_models_to_plot
                then bind (heappop heap) (\<lambda>((heapitem_logprob, heapitem_uid), heap1).
                       if heapitem_uid \<in> fst ` set sims
                       then Inr (heap1, AList.delete heapitem_uid sims)
                       else Inl KeyError)
                else Inr (heap, sims)) (\<lambda>(heap1, sims1).
          Inr (heappush heap1 (sim_max_logprob, sim_uid), AList.update sim_uid entry sims1))
        else Inr (heap, sims))"

text \<open>
  The functions of the libraries that \<^verbatim>\<open>callback\<close> calls on floats, as parameters:
  \<^verbatim>\<open>gammaln\<close> of \<^verbatim>\<open>scipy.special\<close> at a Python integer (\<open>gammaln_scalar\<close>, which may refuse its
  argument) and at an element of an integer array, \<^verbatim>\<open>xlogy\<close> at an element of an integer
  array and one of a float array, and the rendering \<^verbatim>\<open>'%s' % float('%.4g' % x)\<close> of a
  rate. Their values are reals: the infinities and the NaN of the doubles are not
  modelled.
\<close>

record numerics =
  gammaln_scalar :: "int \<Rightarrow> error + real"
  gammaln :: "int \<Rightarrow> real"
  xlogy :: "int \<Rightarrow> real \<Rightarrow> real"
  format_rate :: "real \<Rightarrow> string"

text \<open>A loop that appends one result per item and stops at the first exception.\<close>

fun for_each :: "('a \<Rightarrow> error + 'b) \<Rightarrow> 'a list \<Rightarrow> error + 'b list" where
  "for_each f [] = Inr []"
| "for_each f (x # xs) = bind (f x) (\<lambda>y. bind (for_each f xs) (\<lambda>ys. Inr (y # ys)))"

text \<open>Line 57: the label of a model.\<close>

definition s_xlabel_of :: "numerics \<Rightarrow> 'f legacy_run \<Rightarrow> string" where
  "s_xlabel_of lib sim_data =
     (let md = lr_metadata sim_data in
      am_ecc_category md @ ''('' @ py_str_int (am_n md) @ '', '' @ py_str_int (am_k md) @ '', ''
        @ py_str_int (am_t md) @ '') [r:'' @ format_rate lib (lr_rber sim_data)
        @ '' u:'' @ format_rate lib (lr_uber sim_data) @ '']'')"

text \<open>
  \<^verbatim>\<open>for i in range(bl + 1): if i not in d: d[i] = v\<close> on a dictionary, and
  \<^verbatim>\<open>[prob for n_errs, prob in sorted(d.items())]\<close>: the keys of a dictionary are distinct,
  so the items are ordered by their keys.
\<close>

definition fill_range :: "int \<Rightarrow> 'a \<Rightarrow> (int \<times> 'a) list \<Rightarrow> (int \<times> 'a) list" where
  "fill_range bl v d = fold (\<lambda>i d. if i \<in> fst ` set d then d else d @ [(i, v)]) [0..bl] d"

definition sorted_values :: "(int \<times> 'a) list \<Rightarrow> 'a list" where
  "sorted_values d = map snd (sort_key fst d)"

text \<open>
  Lines 60 to 68: the single-trial probabilities of the model, \<^verbatim>\<open>count / s_histogram_sum\<close>
  with \<^verbatim>\<open>s_histogram_sum = float(sum(s_histogram.values()))\<close>, the value \<^verbatim>\<open>1e-10\<close> at every
  number of errors from \<^verbatim>\<open>0\<close> to \<^verbatim>\<open>s_bl\<close> that the histogram lacks, and the list \<^verbatim>\<open>s_pmf\<close>.
\<close>

definition s_pmf_of :: "histogram \<Rightarrow> int \<Rightarrow> error + real list" where
  "s_pmf_of s_histogram s_bl =
     bind (int_to_float (sum_list (map snd s_histogram))) (\<lambda>s_histogram_sum.
     bind (for_each (\<lambda>(n_errs, count).
                       bind (true_div count s_histogram_sum) (\<lambda>prob. Inr (n_errs, prob)))
             s_histogram) (\<lambda>single_trial_probabilities.
     Inr (sorted_values (fill_range s_bl (1 / 10 ^ 10) single_trial_probabilities))))"

text \<open>
  An entry of \<^verbatim>\<open>o_sample_probs\<close>: a count of the sample histogram, or the float \<^verbatim>\<open>1e-10\<close>
  (\<open>Tiny\<close>). \<^verbatim>\<open>np.array(o_sample_pmf, dtype=int)\<close> turns the float into \<^verbatim>\<open>0\<close> and raises
  \<^verbatim>\<open>OverflowError\<close> at an integer outside 64 bits.
\<close>

datatype sample_prob = Count int | Tiny

definition to_int64 :: "sample_prob \<Rightarrow> error + int" where
  "to_int64 v =
     (case v of
        Tiny \<Rightarrow> Inr 0
      | Count c \<Rightarrow> if - (2 ^ 63) \<le> c \<and> c < 2 ^ 63 then Inr c else Inl OverflowError)"

text \<open>\<^verbatim>\<open>x + 1\<close> on an element of an array of 64-bit integers: the sum wraps around.\<close>

definition int64_succ :: "int \<Rightarrow> int" where
  "int64_succ x = (if x + 1 < 2 ^ 63 then x + 1 else x + 1 - 2 ^ 64)"

text \<open>
  The pairs of elements that an element-wise operation on two one-dimensional arrays
  combines: arrays of one length, or one of them of length one; anything else raises
  \<^verbatim>\<open>ValueError\<close> (operands could not be broadcast together).
\<close>

definition broadcast :: "'a list \<Rightarrow> 'b list \<Rightarrow> error + ('a \<times> 'b) list" where
  "broadcast xs ys =
     (if length xs = length ys then Inr (zip xs ys)
      else if length xs = 1 then Inr (map (\<lambda>y. (hd xs, y)) ys)
      else if length ys = 1 then Inr (map (\<lambda>x. (x, hd ys)) xs)
      else Inl ValueError)"

text \<open>
  Lines 74 to 96, the body of the loop over the sample histograms:
  \<^verbatim>\<open>gammaln(n+1) + np.sum(xlogy(x, p) - gammaln(x+1), axis=-1)\<close> with \<^verbatim>\<open>x\<close> the counts of the
  sample from \<^verbatim>\<open>0\<close> to \<^verbatim>\<open>o_bl\<close>, \<^verbatim>\<open>n\<close> their sum and \<^verbatim>\<open>p\<close> the array of \<^verbatim>\<open>s_pmf\<close>.
\<close>

definition log_pmf :: "numerics \<Rightarrow> real list \<Rightarrow> histogram \<Rightarrow> int \<Rightarrow> error + real" where
  "log_pmf lib s_pmf o_sample_histogram o_bl =
     (let o_sample_histogram_sum = sum_list (map snd o_sample_histogram);
          o_sample_probs =
            fill_range o_bl Tiny (map (\<lambda>(n_errs, count). (n_errs, Count count)) o_sample_histogram);
          o_sample_pmf = sorted_values o_sample_probs
      in
      bind (for_each to_int64 o_sample_pmf) (\<lambda>x.
      bind (gammaln_scalar lib (o_sample_histogram_sum + 1)) (\<lambda>gammaln_n.
      bind (broadcast x s_pmf) (\<lambda>pairs.
      Inr (gammaln_n
           + sum_list (map (\<lambda>(x_i, p_i). xlogy lib x_i p_i - gammaln lib (int64_succ x_i))
                         pairs))))))"

text \<open>Lines 56 to 96: the log-likelihoods of a model, one per sample histogram.\<close>

definition model_log_probs ::
  "numerics \<Rightarrow> 'f legacy_run \<Rightarrow> 'f legacy_run \<Rightarrow> histogram list \<Rightarrow> error + real list" where
  "model_log_probs lib sim_data exp_data o_sample_histograms =
     bind (s_pmf_of (lr_ue_data sim_data) (am_bl (lr_metadata sim_data))) (\<lambda>s_pmf.
     for_each (\<lambda>o_sample_histogram.
                 log_pmf lib s_pmf o_sample_histogram (am_bl (lr_metadata exp_data)))
       o_sample_histograms)"

text \<open>
  \<^verbatim>\<open>callback(sim_uid, sim_data, exp_uid, exp_data, o_sample_histograms)\<close> as a function of
  the global state. A model whose burst length differs from the experiment's is skipped
  (the warning is not modelled). The message of the assertion stops before the rendering
  of \<^verbatim>\<open>sim_data\<close>.
\<close>

definition callback ::
  "numerics \<Rightarrow> string \<Rightarrow> 'f legacy_run \<Rightarrow> string \<Rightarrow> 'f legacy_run \<Rightarrow> histogram list
     \<Rightarrow> 'f ein_state \<Rightarrow> error + 'f ein_state" where
  "callback lib sim_uid sim_data exp_uid exp_data o_sample_histograms st =
     (if am_bl (lr_metadata exp_data) \<noteq> am_bl (lr_metadata sim_data) then Inr st
      else
        let s_xlabel = s_xlabel_of lib sim_data in
        bind (model_log_probs lib sim_data exp_data o_sample_histograms) (\<lambda>log_probs.
        let table = (case map_of (log_probabilities st) exp_uid of None \<Rightarrow> [] | Some t \<Rightarrow> t) in
        if sim_uid \<in> fst ` set table then Inl (AssertionError (''Repeat simulation: '' @ sim_uid))
        else
          let st1 = st\<lparr>log_probabilities :=
                        AList.update exp_uid (table @ [(sim_uid, (log_probs, s_xlabel))])
                          (log_probabilities st)\<rparr>;
              st2 = (if map_of (top_n_models_data st1) exp_uid = None
                     then st1\<lparr>top_n_models_data :=
                                 AList.update exp_uid (exp_data, []) (top_n_models_data st1),
                               top_n_models_heapq :=
                                 AList.update exp_uid [] (top_n_models_heapq st1)\<rparr>
                     else st1)
          in
          bind (np_max log_probs) (\<lambda>sim_max_logprob.
          (case (map_of (top_n_models_heapq st2) exp_uid, map_of (top_n_models_data st2) exp_uid) of
             (Some heap, Some (exp_data1, sims)) \<Rightarrow>
               bind (update_top_n (heap, sims) sim_max_logprob sim_uid
                       (log_probs, s_xlabel, sim_data))
                 (\<lambda>(heap1, sims1).
               Inr (st2\<lparr>top_n_models_heapq :=
                           AList.update exp_uid heap1 (top_n_models_heapq st2),
                         top_n_models_data :=
                           AList.update exp_uid (exp_data1, sims1) (top_n_models_data st2)\<rparr>))
           | _ \<Rightarrow> Inl KeyError))))"

text \<open>The loop of \<^verbatim>\<open>evaluate_likelihoods\<close> over the simulated models, for one observation.\<close>

fun evaluate_models ::
  "numerics \<Rightarrow> (string \<times> 'f legacy_run) list \<Rightarrow> string \<Rightarrow> 'f legacy_run \<Rightarrow> histogram list
     \<Rightarrow> 'f ein_state \<Rightarrow> error + 'f ein_state" where
  "evaluate_models lib [] exp_uid exp_data o_sample_histograms st = Inr st"
| "evaluate_models lib ((simulation_run_uid, simulation_components) # simulations)
       exp_uid exp_data o_sample_histograms st =
     bind (callback lib simulation_run_uid simulation_components exp_uid exp_data
             o_sample_histograms st)
       (evaluate_models lib simulations exp_uid exp_data o_sample_histograms)"

text \<open>The models with the experiment's burst length, and the score of a model: the
  largest of its log-likelihoods (\<open>0\<close> stands for the score of a model that has none).\<close>

definition accepted_models ::
  "'f legacy_run \<Rightarrow> (string \<times> 'f legacy_run) list \<Rightarrow> (string \<times> 'f legacy_run) list" where
  "accepted_models exp_data simulations =
     filter (\<lambda>(sim_uid, sim_data). am_bl (lr_metadata sim_data) = am_bl (lr_metadata exp_data))
       simulations"

definition model_score ::
  "numerics \<Rightarrow> 'f legacy_run \<Rightarrow> histogram list \<Rightarrow> 'f legacy_run \<Rightarrow> real" where
  "model_score lib exp_data o_sample_histograms sim_data =
     (case model_log_probs lib sim_data exp_data o_sample_histograms of
        Inr (x # xs) \<Rightarrow> fold max xs x
      | _ \<Rightarrow> 0)"

text \<open>
  The invariant of the retained set, relative to the pairs \<^verbatim>\<open>(score, uid)\<close> of the models
  accepted so far: the heap is ordered and holds the retained pairs, \<^verbatim>\<open>sims\<close> has their
  keys, nothing is dropped before the capacity is reached, and no dropped pair scores
  above a retained one.
\<close>

definition kept_inv ::
  "(real \<times> string) list \<Rightarrow> (real \<times> string) list \<Rightarrow> (string \<times> 'v) list \<Rightarrow> bool" where
  "kept_inv seen heap sims \<longleftrightarrow>
     sorted heap \<and> distinct (map snd heap) \<and> set heap \<subseteq> set seen
     \<and> length heap = min max_n_models_to_plot (length seen)
     \<and> (length seen \<le> max_n_models_to_plot \<longrightarrow> set heap = set seen)
     \<and> fst ` set sims = snd ` set heap \<and> distinct (map fst sims)
     \<and> (\<forall>x \<in> set seen. x \<notin> set heap \<longrightarrow> (\<forall>y \<in> set heap. fst x \<le> fst y))"

text \<open>The invariant of the global state at one experiment: nothing is recorded before
  the first accepted model, and afterwards the three dictionaries agree.\<close>

definition state_inv ::
  "string \<Rightarrow> 'f legacy_run \<Rightarrow> (real \<times> string) list \<Rightarrow> 'f ein_state \<Rightarrow> bool" where
  "state_inv exp_uid exp_data seen st \<longleftrightarrow>
     distinct (map snd seen)
     \<and> (case map_of (log_probabilities st) exp_uid of
          None \<Rightarrow>
            seen = [] \<and> map_of (top_n_models_heapq st) exp_uid = None
            \<and> map_of (top_n_models_data st) exp_uid = None
        | Some table \<Rightarrow>
            fst ` set table = snd ` set seen
            \<and> (\<exists>heap sims. map_of (top_n_models_heapq st) exp_uid = Some heap
                  \<and> map_of (top_n_models_data st) exp_uid = Some (exp_data, sims)
                  \<and> kept_inv seen heap sims))"

text \<open>The pairs \<^verbatim>\<open>(sim_max_logprob, sim_uid)\<close> of a list of models.\<close>

definition scored ::
  "numerics \<Rightarrow> 'f legacy_run \<Rightarrow> histogram list \<Rightarrow> (string \<times> 'f legacy_run) list
     \<Rightarrow> (real \<times> string) list" where
  "scored lib exp_data o_sample_histograms models =
     map (\<lambda>(sim_uid, sim_data).
            (model_score lib exp_data o_sample_histograms sim_data, sim_uid)) models"

text \<open>
  Concrete inputs. The library functions at their exact values on the arguments met
  here: \<^verbatim>\<open>gammaln(k)\<close> is \<open>ln ((k - 1)!)\<close> at a positive integer, \<^verbatim>\<open>xlogy(x, p)\<close> is \<open>x ln p\<close>
  and \<open>0\<close> at \<open>x = 0\<close>; the rendering of a rate is a stand-in that knows the rate \<^verbatim>\<open>-1.0\<close>
  only. Twenty-two models with one burst length and distinct identities,
  whose histograms give \<open>c\<close> bursts without error and one burst with one error; an
  observation with a single error-free burst, evaluated without bootstrapping; and the
  state of a freshly loaded module.
\<close>

definition demo_lib :: numerics where
  "demo_lib =
     \<lparr>gammaln_scalar = (\<lambda>k. Inr (ln (fact (nat (k - 1))))),
      gammaln = (\<lambda>k. ln (fact (nat (k - 1)))),
      xlogy = (\<lambda>x p. if x = 0 then 0 else real_of_int x * ln p),
      format_rate = (\<lambda>x. if x = - 1 then ''-1.0'' else ''?'')\<rparr>"

definition demo_run :: "int \<Rightarrow> real legacy_run" where
  "demo_run c =
     \<lparr>lr_metadata =
        \<lparr>am_ecc_category = ''REP'', am_t = 1, am_k = 4, am_n = 12, am_m = - 1, am_rber = 0,
         am_bl = 4, am_bcl = 12, am_ps = 0, am_ed = ''UNIFORM_RANDOM'',
         am_cd = ''ALL_TRUE_OR_ALL_ANTI'', am_dp = ''RANDOM''\<rparr>,
      lr_p = [], lr_raw_data = [(0, (0, c)), (1, (0, 1))], lr_rber = - 1,
      lr_uber = 1 / (4 * (real_of_int c + 1)),
      lr_re_data = [], lr_ue_data = [(0, c), (1, 1)]\<rparr>"

definition demo_experiment :: "real legacy_run" where
  "demo_experiment =
     \<lparr>lr_metadata =
        \<lparr>am_ecc_category = ''REP'', am_t = 1, am_k = 4, am_n = 12, am_m = - 1, am_rber = 0,
         am_bl = 4, am_bcl = 12, am_ps = 0, am_ed = ''UNIFORM_RANDOM'',
         am_cd = ''ALL_TRUE_OR_ALL_ANTI'', am_dp = ''RANDOM''\<rparr>,
      lr_p = [], lr_raw_data = [(0, (0, 1))], lr_rber = - 1, lr_uber = 0,
      lr_re_data = [], lr_ue_data = [(0, 1)]\<rparr>"

definition demo_models :: "(string \<times> real legacy_run) list" where
  "demo_models =
     map (\<lambda>c. (''sim_'' @ py_str_int c, demo_run c))
       [1, 2, 3, 4, 5, 6, 7, 8, 9, 10, 11, 12, 13, 14, 15, 16, 17, 18, 19, 20, 21, 22]"

definition demo_state :: "real ein_state" where
  "demo_state = \<lparr>log_probabilities = [], top_n_models_heapq = [], top_n_models_data = []\<rparr>"

section \<open>Properties of the built-ins\<close>

lemma bind_Inr_iff: "bind m f = Inr y \<longleftrightarrow> (\<exists>x. m = Inr x \<and> f x = Inr y)"
  by (cases m) (simp_all add: bind_def)

lemma bind_Inl [simp]: "bind (Inl e) f = Inl e"
  by (simp add: bind_def)

lemma bind_Inr [simp]: "bind (Inr x) f = f x"
  by (simp add: bind_def)

lemma digit_cases:
  assumes "d < (10::nat)"
  shows "d \<in> set [0, 1, 2, 3, 4, 5, 6, 7, 8, 9]"
proof -
  have "[0 ..< 10] = [0, 1, 2, 3, 4, 5, 6, 7, 8, 9::nat]"
    by (simp add: upt_rec)
  moreover from assms have "d \<in> set [0 ..< 10]"
    by simp
  ultimately show ?thesis
    by simp
qed

lemma digit_val_digit_char: "d < 10 \<Longrightarrow> digit_val (digit_char d) = d"
  using digit_cases [of d] by (auto simp: digit_char_def digit_val_def)

lemma is_digit_digit_char: "d < 10 \<Longrightarrow> is_digit (digit_char d)"
  using digit_cases [of d] by (auto simp: is_digit_def digit_char_def)

lemma digits_of_all_digits: "c \<in> set (digits_of n) \<Longrightarrow> is_digit c"
proof (induction n rule: digits_of.induct)
  case (1 n)
  show ?case
  proof (cases "n < 10")
    case True
    with "1.prems" show ?thesis
      by (simp add: digits_of.simps [of n] is_digit_digit_char)
  next
    case False
    with "1.prems" "1.IH" show ?thesis
      by (auto simp: digits_of.simps [of n] is_digit_digit_char)
  qed
qed

lemma digits_of_nonempty: "digits_of n \<noteq> []"
  by (simp add: digits_of.simps [of n])

lemma digits_value_snoc:
  "digits_value a (xs @ [c]) = 10 * digits_value a xs + digit_val c"
  by (induction xs arbitrary: a) simp_all

lemma digits_value_digits_of: "digits_value 0 (digits_of n) = n"
proof (induction n rule: digits_of.induct)
  case (1 n)
  show ?case
  proof (cases "n < 10")
    case True
    then show ?thesis
      using digit_val_digit_char [of n] by (simp add: digits_of.simps [of n])
  next
    case False
    with "1.IH" show ?thesis
      using digit_val_digit_char [of "n mod 10"]
      by (simp add: digits_of.simps [of n] digits_value_snoc)
  qed
qed

lemma is_digit_plain:
  "is_digit c \<Longrightarrow>
     \<not> int_isspace c \<and> \<not> str_isspace c \<and> c \<noteq> CHR ''_'' \<and> c \<noteq> CHR ''-'' \<and> c \<noteq> CHR ''+''
     \<and> c \<noteq> CHR '' '' \<and> c \<noteq> CHR '':'' \<and> c \<noteq> CHR ''['' \<and> c \<noteq> CHR '']''"
  by (auto simp: is_digit_def int_isspace_def str_isspace_def)

lemma valid_int_body_digits:
  "xs \<noteq> [] \<Longrightarrow> \<forall>c\<in>set xs. is_digit c \<Longrightarrow> valid_int_body xs"
proof (induction xs rule: valid_int_body.induct)
  case 1
  then show ?case by simp
next
  case (2 c)
  then show ?case by simp
next
  case (3 c d cs)
  then have "d \<noteq> CHR ''_''" using is_digit_plain [of d] by simp
  with 3 show ?case by simp
qed

lemma int_body_digits_of: "int_body (digits_of n) = Inr (int n)"
proof -
  have "filter (\<lambda>c. c \<noteq> CHR ''_'') (digits_of n) = digits_of n"
    by (rule filter_True) (use digits_of_all_digits is_digit_plain in blast)
  moreover have "valid_int_body (digits_of n)"
    by (rule valid_int_body_digits) (auto simp: digits_of_nonempty digits_of_all_digits)
  ultimately show ?thesis
    by (simp add: int_body_def digits_value_digits_of)
qed

lemma trim_unchanged:
  assumes "xs \<noteq> []" and "\<not> sp (hd xs)" and "\<not> sp (last xs)"
  shows "trim sp xs = xs"
proof -
  from assms have a: "dropWhile sp xs = xs"
    by (cases xs) auto
  from assms have "dropWhile sp (rev xs) = rev xs"
    by (cases "rev xs") (auto simp: hd_rev)
  with a show ?thesis by (simp add: trim_def)
qed

lemma hd_digits_of: "is_digit (hd (digits_of n))"
  using digits_of_nonempty [of n] digits_of_all_digits [of "hd (digits_of n)" n] by simp

lemma last_digits_of: "is_digit (last (digits_of n))"
  using digits_of_nonempty [of n] digits_of_all_digits [of "last (digits_of n)" n] by simp

lemma py_int_digits_of: "py_int (digits_of n) = Inr (int n)"
proof -
  have t: "trim int_isspace (digits_of n) = digits_of n"
    by (rule trim_unchanged)
       (use hd_digits_of last_digits_of is_digit_plain digits_of_nonempty in auto)
  obtain c r where cr: "digits_of n = c # r"
    using digits_of_nonempty [of n] by (cases "digits_of n") auto
  have "is_digit c" using hd_digits_of [of n] cr by simp
  then have "c \<noteq> CHR ''-''" "c \<noteq> CHR ''+''" using is_digit_plain by auto
  moreover from t cr have "trim int_isspace (c # r) = c # r" by simp
  ultimately show ?thesis
    using int_body_digits_of [of n] by (simp add: py_int_def cr)
qed

text \<open>\<^verbatim>\<open>int(str(i)) == i\<close>: the decimal rendering is read back as the same integer.\<close>

lemma py_int_py_str_int: "py_int (py_str_int i) = Inr i"
proof (cases "i < 0")
  case False
  then show ?thesis by (simp add: py_str_int_def py_int_digits_of)
next
  case True
  let ?d = "digits_of (nat (- i))"
  have "\<not> int_isspace (last ?d)"
    using last_digits_of is_digit_plain by blast
  then have "trim int_isspace (CHR ''-'' # ?d) = CHR ''-'' # ?d"
    by (intro trim_unchanged) (simp_all add: int_isspace_def digits_of_nonempty)
  with True show ?thesis
    by (simp add: py_str_int_def py_int_def int_body_digits_of)
qed

lemma py_str_int_inj: "py_str_int a = py_str_int b \<longleftrightarrow> a = b"
proof
  assume "py_str_int a = py_str_int b"
  then have "py_int (py_str_int a) = py_int (py_str_int b)"
    by (rule arg_cong)
  then show "a = b"
    by (simp only: py_int_py_str_int sum.inject)
qed simp

section \<open>Identity masking\<close>

lemma uid_ignoring_bl_masked:
  "run_uid_from_metadata_ignoring_fields (m\<lparr>MI_BL := b\<rparr>) [''bl'']
     = run_uid_from_metadata_ignoring_fields m [''bl'']"
  by (simp add: run_uid_from_metadata_ignoring_fields_def)

lemma uid_ignoring_bl_MI_UID:
  "i \<noteq> MI_UID m \<Longrightarrow>
     run_uid_from_metadata_ignoring_fields (m\<lparr>MI_UID := i\<rparr>) [''bl'']
       \<noteq> run_uid_from_metadata_ignoring_fields m [''bl'']"
  by (simp add: run_uid_from_metadata_ignoring_fields_def py_str_int_inj)

lemma uid_ignoring_bl_MI_NW:
  "i \<noteq> MI_NW m \<Longrightarrow>
     run_uid_from_metadata_ignoring_fields (m\<lparr>MI_NW := i\<rparr>) [''bl'']
       \<noteq> run_uid_from_metadata_ignoring_fields m [''bl'']"
  by (simp add: run_uid_from_metadata_ignoring_fields_def py_str_int_inj)

lemma uid_ignoring_bl_MI_BCL:
  "i \<noteq> MI_BCL m \<Longrightarrow>
     run_uid_from_metadata_ignoring_fields (m\<lparr>MI_BCL := i\<rparr>) [''bl'']
       \<noteq> run_uid_from_metadata_ignoring_fields m [''bl'']"
  by (simp add: run_uid_from_metadata_ignoring_fields_def py_str_int_inj)

lemma uid_ignoring_bl_MI_PS:
  "i \<noteq> MI_PS m \<Longrightarrow>
     run_uid_from_metadata_ignoring_fields (m\<lparr>MI_PS := i\<rparr>) [''bl'']
       \<noteq> run_uid_from_metadata_ignoring_fields m [''bl'']"
  by (simp add: run_uid_from_metadata_ignoring_fields_def py_str_int_inj)

lemma uid_ignoring_bl_MI_EM:
  "py_str v \<noteq> py_str (MI_EM m) \<Longrightarrow>
     run_uid_from_metadata_ignoring_fields (m\<lparr>MI_EM := v\<rparr>) [''bl'']
       \<noteq> run_uid_from_metadata_ignoring_fields m [''bl'']"
  by (simp add: run_uid_from_metadata_ignoring_fields_def)

lemma uid_ignoring_bl_MI_CD:
  "py_str v \<noteq> py_str (MI_CD m) \<Longrightarrow>
     run_uid_from_metadata_ignoring_fields (m\<lparr>MI_CD := v\<rparr>) [''bl'']
       \<noteq> run_uid_from_metadata_ignoring_fields m [''bl'']"
  by (simp add: run_uid_from_metadata_ignoring_fields_def)

lemma uid_ignoring_bl_MI_DP:
  "py_str v \<noteq> py_str (MI_DP m) \<Longrightarrow>
     run_uid_from_metadata_ignoring_fields (m\<lparr>MI_DP := v\<rparr>) [''bl'']
       \<noteq> run_uid_from_metadata_ignoring_fields m [''bl'']"
  by (simp add: run_uid_from_metadata_ignoring_fields_def)

lemma uid_ignoring_bl_MI_CDP:
  "py_str v \<noteq> py_str (MI_CDP m) \<Longrightarrow>
     run_uid_from_metadata_ignoring_fields (m\<lparr>MI_CDP := v\<rparr>) [''bl'']
       \<noteq> run_uid_from_metadata_ignoring_fields m [''bl'']"
  by (simp add: run_uid_from_metadata_ignoring_fields_def)

lemma uid_ignoring_bl_MI_OBS:
  "py_str v \<noteq> py_str (MI_OBS m) \<Longrightarrow>
     run_uid_from_metadata_ignoring_fields (m\<lparr>MI_OBS := v\<rparr>) [''bl'']
       \<noteq> run_uid_from_metadata_ignoring_fields m [''bl'']"
  by (simp add: run_uid_from_metadata_ignoring_fields_def)

lemma py_str_int_minus_one: "py_str_int (- 1) = ''-1''"
  by (simp add: py_str_int_def digits_of.simps digit_char_def)

text \<open>
  Claim C5, as stated, fails: the identity renders every field through \<^verbatim>\<open>str\<close>, and the
  integer default \<^verbatim>\<open>-1\<close> of an absent text field renders like the text \<^verbatim>\<open>-1\<close>. The metadata
  of a line without \<^verbatim>\<open>em:\<close> and of the same line with \<^verbatim>\<open>em:-1\<close> differ in the unmasked
  field \<^verbatim>\<open>em\<close> only and have the same identity under the mask \<^verbatim>\<open>{'bl'}\<close>.
\<close>

theorem identity_masking_counterexample:
  "MI_EM md_em_text \<noteq> MI_EM md_em_absent
   \<and> md_em_text = md_em_absent\<lparr>MI_EM := PStr ''-1''\<rparr>
   \<and> run_uid_from_metadata_ignoring_fields md_em_text [''bl'']
       = run_uid_from_metadata_ignoring_fields md_em_absent [''bl'']"
  by (simp add: md_em_text_def md_em_absent_def run_uid_from_metadata_ignoring_fields_def
        py_str_int_minus_one)

text \<open>
  Claim C5, amended: under the mask \<^verbatim>\<open>{'bl'}\<close> the identity does not depend on the \<^verbatim>\<open>bl\<close>
  field; changing one of the integer fields \<^verbatim>\<open>uid\<close>, \<^verbatim>\<open>nw\<close>, \<^verbatim>\<open>bcl\<close>, \<^verbatim>\<open>ps\<close> to a
  different value changes the identity; changing one of the text fields \<^verbatim>\<open>em\<close>, \<^verbatim>\<open>cd\<close>,
  \<^verbatim>\<open>dp\<close>, \<^verbatim>\<open>cdp\<close>, \<^verbatim>\<open>obs\<close> to a value with a different \<^verbatim>\<open>str\<close> rendering changes the
  identity.
\<close>

theorem identity_masking_bl:
  "run_uid_from_metadata_ignoring_fields (m\<lparr>MI_BL := b\<rparr>) [''bl'']
     = run_uid_from_metadata_ignoring_fields m [''bl'']
   \<and> (i \<noteq> MI_UID m \<longrightarrow>
        run_uid_from_metadata_ignoring_fields (m\<lparr>MI_UID := i\<rparr>) [''bl'']
          \<noteq> run_uid_from_metadata_ignoring_fields m [''bl''])
   \<and> (i \<noteq> MI_NW m \<longrightarrow>
        run_uid_from_metadata_ignoring_fields (m\<lparr>MI_NW := i\<rparr>) [''bl'']
          \<noteq> run_uid_from_metadata_ignoring_fields m [''bl''])
   \<and> (i \<noteq> MI_BCL m \<longrightarrow>
        run_uid_from_metadata_ignoring_fields (m\<lparr>MI_BCL := i\<rparr>) [''bl'']
          \<noteq> run_uid_from_metadata_ignoring_fields m [''bl''])
   \<and> (i \<noteq> MI_PS m \<longrightarrow>
        run_uid_from_metadata_ignoring_fields (m\<lparr>MI_PS := i\<rparr>) [''bl'']
          \<noteq> run_uid_from_metadata_ignoring_fields m [''bl''])
   \<and> (py_str v \<noteq> py_str (MI_EM m) \<longrightarrow>
        run_uid_from_metadata_ignoring_fields (m\<lparr>MI_EM := v\<rparr>) [''bl'']
          \<noteq> run_uid_from_metadata_ignoring_fields m [''bl''])
   \<and> (py_str v \<noteq> py_str (MI_CD m) \<longrightarrow>
        run_uid_from_metadata_ignoring_fields (m\<lparr>MI_CD := v\<rparr>) [''bl'']
          \<noteq> run_uid_from_metadata_ignoring_fields m [''bl''])
   \<and> (py_str v \<noteq> py_str (MI_DP m) \<longrightarrow>
        run_uid_from_metadata_ignoring_fields (m\<lparr>MI_DP := v\<rparr>) [''bl'']
          \<noteq> run_uid_from_metadata_ignoring_fields m [''bl''])
   \<and> (py_str v \<noteq> py_str (MI_CDP m) \<longrightarrow>
        run_uid_from_metadata_ignoring_fields (m\<lparr>MI_CDP := v\<rparr>) [''bl'']
          \<noteq> run_uid_from_metadata_ignoring_fields m [''bl''])
   \<and> (py_str v \<noteq> py_str (MI_OBS m) \<longrightarrow>
        run_uid_from_metadata_ignoring_fields (m\<lparr>MI_OBS := v\<rparr>) [''bl'']
          \<noteq> run_uid_from_metadata_ignoring_fields m [''bl''])"
  using uid_ignoring_bl_masked uid_ignoring_bl_MI_UID uid_ignoring_bl_MI_NW
    uid_ignoring_bl_MI_BCL uid_ignoring_bl_MI_PS uid_ignoring_bl_MI_EM uid_ignoring_bl_MI_CD
    uid_ignoring_bl_MI_DP uid_ignoring_bl_MI_CDP uid_ignoring_bl_MI_OBS
  by blast

theorem identity_masking_bl_witness:
  "run_uid_from_metadata_ignoring_fields (md_em_absent\<lparr>MI_BL := 512\<rparr>) [''bl'']
     = run_uid_from_metadata_ignoring_fields md_em_absent [''bl'']
   \<and> run_uid_from_metadata_ignoring_fields (md_em_absent\<lparr>MI_UID := 8\<rparr>) [''bl'']
       \<noteq> run_uid_from_metadata_ignoring_fields md_em_absent [''bl'']
   \<and> run_uid_from_metadata_ignoring_fields (md_em_absent\<lparr>MI_NW := 8\<rparr>) [''bl'']
       \<noteq> run_uid_from_metadata_ignoring_fields md_em_absent [''bl'']
   \<and> run_uid_from_metadata_ignoring_fields (md_em_absent\<lparr>MI_BCL := 8\<rparr>) [''bl'']
       \<noteq> run_uid_from_metadata_ignoring_fields md_em_absent [''bl'']
   \<and> run_uid_from_metadata_ignoring_fields (md_em_absent\<lparr>MI_PS := 8\<rparr>) [''bl'']
       \<noteq> run_uid_from_metadata_ignoring_fields md_em_absent [''bl'']
   \<and> run_uid_from_metadata_ignoring_fields (md_em_absent\<lparr>MI_EM := PStr ''NORMAL''\<rparr>) [''bl'']
       \<noteq> run_uid_from_metadata_ignoring_fields md_em_absent [''bl'']
   \<and> run_uid_from_metadata_ignoring_fields (md_em_absent\<lparr>MI_CD := PStr ''NORMAL''\<rparr>) [''bl'']
       \<noteq> run_uid_from_metadata_ignoring_fields md_em_absent [''bl'']
   \<and> run_uid_from_metadata_ignoring_fields (md_em_absent\<lparr>MI_DP := PStr ''NORMAL''\<rparr>) [''bl'']
       \<noteq> run_uid_from_metadata_ignoring_fields md_em_absent [''bl'']
   \<and> run_uid_from_metadata_ignoring_fields (md_em_absent\<lparr>MI_CDP := PStr ''NORMAL''\<rparr>) [''bl'']
       \<noteq> run_uid_from_metadata_ignoring_fields md_em_absent [''bl'']
   \<and> run_uid_from_metadata_ignoring_fields (md_em_absent\<lparr>MI_OBS := PStr ''NORMAL''\<rparr>) [''bl'']
       \<noteq> run_uid_from_metadata_ignoring_fields md_em_absent [''bl'']"
proof -
  have i: "(8::int) \<noteq> MI_UID md_em_absent" "8 \<noteq> MI_NW md_em_absent"
    "8 \<noteq> MI_BCL md_em_absent" "8 \<noteq> MI_PS md_em_absent"
    by (simp_all add: md_em_absent_def)
  have v: "py_str (PStr ''NORMAL'') \<noteq> py_str (MI_EM md_em_absent)"
    "py_str (PStr ''NORMAL'') \<noteq> py_str (MI_CD md_em_absent)"
    "py_str (PStr ''NORMAL'') \<noteq> py_str (MI_DP md_em_absent)"
    "py_str (PStr ''NORMAL'') \<noteq> py_str (MI_CDP md_em_absent)"
    "py_str (PStr ''NORMAL'') \<noteq> py_str (MI_OBS md_em_absent)"
    by (simp_all add: md_em_absent_def py_str_int_minus_one)
  from identity_masking_bl [where m = md_em_absent and b = 512 and i = 8 and v = "PStr ''NORMAL''"] i v
  show ?thesis by blast
qed

section \<open>The line parser on experimental input\<close>

lemma line_per_bit_parsed:
  "parse_einsim_output_line line_per_bit [] False =
     Inr (Some \<lparr>metadata =
                  \<lparr>MI_UID = 1, MI_NW = 10, MI_BL = 4, MI_BCL = 12, MI_PS = 0,
                   MI_EM = PInt (- 1), MI_CD = PInt (- 1), MI_DP = PInt (- 1),
                   MI_CDP = PInt (- 1), MI_OBS = PStr ''PER_BIT_ERROR_COUNT''\<rparr>,
                experiment_id = None,
                uid = ''[DATA] uid:1 nw:10 bl:4 bcl:12 ps:0 em:-1 cd:-1 dp:-1 cdp:-1 obs:PER_BIT_ERROR_COUNT'',
                uid_ignoring_fields = ''[DATA] uid:1 nw:10 bl:4 bcl:12 ps:0 em:-1 cd:-1 dp:-1 cdp:-1 obs:PER_BIT_ERROR_COUNT'',
                observations =
                  [(''PER_BIT_ERROR_COUNT'', Per_bit_obs [1, 2, 3, 4] [0, 0, 1, 0, 0, 0, 0, 0, 0, 0, 0, 0])]\<rparr>)"
  by code_simp

text \<open>
  Claim C6 (the code does not do what the claim says). With \<^verbatim>\<open>is_experimental = True\<close> the
  parser never returns a run: reading \<^verbatim>\<open>experiment_id\<close> raises \<^verbatim>\<open>UnboundLocalError\<close> on
  every line that parses without the flag, so no identity ever receives the suffix
  \<^verbatim>\<open>_experiment_<n>\<close>.
\<close>

theorem experimental_line_never_parsed:
  "parse_einsim_output_line line fields_to_combine True \<noteq> Inr (Some r)
   \<and> (parse_einsim_output_line line fields_to_combine False = Inr (Some r) \<longrightarrow>
        parse_einsim_output_line line fields_to_combine True
          = Inl (UnboundLocalError ''experiment_id''))"
  by (auto simp: parse_einsim_output_line_def unbound_local_def bind_def
           split: list.splits sum.splits prod.splits if_splits)

theorem experimental_line_never_parsed_witness:
  "(\<exists>r. parse_einsim_output_line line_per_bit [] False = Inr (Some r))
   \<and> parse_einsim_output_line line_per_bit [] True = Inl (UnboundLocalError ''experiment_id'')"
  using experimental_line_never_parsed [of line_per_bit "[]"] line_per_bit_parsed
  by simp

section \<open>Combining runs\<close>

lemma compute_rates_unbound:
  "compute_rates (unbound a) (unbound b) (unbound c) re_histogram ue_histogram
     = Inl (NameError (if re_histogram \<noteq> [] then a else c))"
  by (simp add: compute_rates_def unbound_def)

lemma accumulate_keys_result:
  "accumulate_keys md keys hists = (if keys = [] then Inr hists else Inl TypeError)"
  by (cases keys) (simp_all add: unpack_key_def)

lemma combine_n_errors_result:
  "combine_n_errors observable runs hists = Inr hists' \<Longrightarrow> hists' = hists"
proof (induction runs arbitrary: hists)
  case Nil
  then show ?case by simp
next
  case (Cons run runs)
  then show ?case
    by (auto simp: accumulate_keys_result bind_Inr_iff
             split: option.splits observation.splits if_splits)
qed

text \<open>No call of \<^verbatim>\<open>combine_observation\<close> for the \<^verbatim>\<open>N_ERRORS_PER_BURST\<close> observable returns.\<close>

lemma combine_observation_n_errors_raises:
  "isl (combine_observation OBS_N_ERRORS_PER_BURST runs)"
proof (cases "combine_n_errors OBS_N_ERRORS_PER_BURST runs ([], [], [])")
  case (Inl e)
  then show ?thesis by (simp add: combine_observation_def)
next
  case (Inr hists)
  then have "hists = ([], [], [])" by (rule combine_n_errors_result)
  with Inr show ?thesis
    by (simp add: combine_observation_def compute_rates_unbound)
qed

lemma combine_observations_raises:
  "observable \<in> set observables \<Longrightarrow> isl (combine_observation observable data)
     \<Longrightarrow> isl (combine_observations observables data)"
proof (induction observables)
  case Nil
  then show ?case by simp
next
  case (Cons o1 rest)
  then show ?case
    by (cases "combine_observation o1 data"; cases "combine_observations rest data") auto
qed

lemma isl_bind: "isl (bind m f) \<longleftrightarrow> isl m \<or> (\<exists>x. m = Inr x \<and> isl (f x))"
  by (cases m) simp_all

lemma combine_runs_Inr_observations:
  assumes "combine_runs data fields_to_combine = Inr combined"
  shows "data \<noteq> [] \<and>
         combine_observations (remdups (map fst (observations (last data)))) data
           = Inr (observations combined)"
  using assms
  by (auto simp: combine_runs_def bind_Inr_iff Let_def combine_metadata_element_def
           split: if_splits)

text \<open>
  Claim C2 (the code does not do what the claim says). Whenever the last run of the list
  carries an \<^verbatim>\<open>N_ERRORS_PER_BURST\<close> observation, as every list of runs of that kind does,
  \<^verbatim>\<open>combine_runs\<close> raises: no combined histogram is produced on either side of the claimed
  equation, for any grouping or order of the runs.
\<close>

theorem combine_runs_n_errors_raises:
  assumes "OBS_N_ERRORS_PER_BURST \<in> fst ` set (observations (last data))"
  shows "isl (combine_runs data fields_to_combine)"
proof (cases "combine_runs data fields_to_combine")
  case (Inl e)
  then show ?thesis by simp
next
  case (Inr combined)
  from combine_runs_Inr_observations [OF Inr]
  have "combine_observations (remdups (map fst (observations (last data)))) data
          = Inr (observations combined)"
    by simp
  moreover from assms
  have "isl (combine_observations (remdups (map fst (observations (last data)))) data)"
    by (intro combine_observations_raises [of OBS_N_ERRORS_PER_BURST])
       (simp_all add: combine_observation_n_errors_raises)
  ultimately show ?thesis by simp
qed

theorem combine_runs_n_errors_raises_witness:
  "OBS_N_ERRORS_PER_BURST \<in> fst ` set (observations (last [run_n_errors, run_n_errors, run_n_errors]))
   \<and> combine_runs [run_n_errors, run_n_errors, run_n_errors] [''bl'', ''bcl''] = Inl TypeError
   \<and> combine_runs [run_n_errors, run_n_errors] [''bl'', ''bcl''] = Inl TypeError"
proof -
  have a: "OBS_N_ERRORS_PER_BURST \<in> fst ` set (observations (last [run_n_errors, run_n_errors, run_n_errors]))"
    by (simp add: run_n_errors_def OBS_N_ERRORS_PER_BURST_def)
  have b: "combine_runs [run_n_errors, run_n_errors, run_n_errors] [''bl'', ''bcl''] = Inl TypeError"
    by code_simp
  have c: "combine_runs [run_n_errors, run_n_errors] [''bl'', ''bcl''] = Inl TypeError"
    by code_simp
  from combine_runs_n_errors_raises [OF a, of "[''bl'', ''bcl'']"] a b c show ?thesis
    by simp
qed

lemma remdups_pair: "remdups [a, b] = (if a = b then [b] else [a, b])"
  by simp

text \<open>
  Claim C9 (the code does not do what the claim says in full). Two runs with one masked
  identity and different burst lengths are never combined, but what \<^verbatim>\<open>combine_runs\<close> raises
  is the \<^verbatim>\<open>TypeError\<close> of the diagnostic message, which adds the integer index of the field
  to a string; the assertion that would name the field is not reached.
\<close>

theorem combine_runs_bl_mismatch:
  assumes "uid_ignoring_fields a = uid_ignoring_fields b"
    and "MI_BL (metadata a) \<noteq> MI_BL (metadata b)"
  shows "combine_runs [a, b] fields_to_combine = Inl TypeError"
  using assms
  by (simp add: combine_runs_def combine_metadata_element_def Let_def)

theorem combine_runs_bl_mismatch_witness:
  "uid_ignoring_fields run_n_errors = uid_ignoring_fields run_other_bl
   \<and> MI_BL (metadata run_n_errors) \<noteq> MI_BL (metadata run_other_bl)
   \<and> combine_runs [run_n_errors, run_other_bl] [''bl'', ''bcl''] = Inl TypeError"
proof -
  have a: "uid_ignoring_fields run_n_errors = uid_ignoring_fields run_other_bl"
    by (simp add: run_other_bl_def)
  have b: "MI_BL (metadata run_n_errors) \<noteq> MI_BL (metadata run_other_bl)"
    by (simp add: run_other_bl_def run_n_errors_def md_n_errors_def)
  from combine_runs_bl_mismatch [OF a b] a b show ?thesis
    by simp
qed

text \<open>
  Claim C4 (the code does not do what the claim says). Two runs with one masked identity
  and different burst codeword lengths make \<^verbatim>\<open>combine_runs\<close> raise \<^verbatim>\<open>TypeError\<close>: the
  warning message adds the integer index of the field to a string, so that nothing is
  printed and no record with \<^verbatim>\<open>bcl = -1\<close> is returned.
\<close>

theorem combine_runs_bcl_mismatch:
  assumes "uid_ignoring_fields a = uid_ignoring_fields b"
    and "MI_BCL (metadata a) \<noteq> MI_BCL (metadata b)"
  shows "combine_runs [a, b] fields_to_combine = Inl TypeError"
  using assms
  by (simp add: combine_runs_def combine_metadata_element_def Let_def)

theorem combine_runs_bcl_mismatch_witness:
  "uid_ignoring_fields run_n_errors = uid_ignoring_fields run_other_bcl
   \<and> MI_BCL (metadata run_n_errors) \<noteq> MI_BCL (metadata run_other_bcl)
   \<and> combine_runs [run_n_errors, run_other_bcl] [''bl'', ''bcl''] = Inl TypeError"
proof -
  have a: "uid_ignoring_fields run_n_errors = uid_ignoring_fields run_other_bcl"
    by (simp add: run_other_bcl_def)
  have b: "MI_BCL (metadata run_n_errors) \<noteq> MI_BCL (metadata run_other_bcl)"
    by (simp add: run_other_bcl_def run_n_errors_def md_n_errors_def)
  from combine_runs_bcl_mismatch [OF a b] a b show ?thesis
    by simp
qed

section \<open>Output and the round trip\<close>

lemma output_observables_raises:
  "OBS_N_ERRORS_PER_BURST \<in> fst ` set obs \<Longrightarrow> isl (output_observables r obs out_str)"
proof (induction obs arbitrary: out_str)
  case Nil
  then show ?case by simp
next
  case (Cons p rest)
  obtain observable ob where p: "p = (observable, ob)" by (cases p)
  show ?case
  proof (cases "observable = OBS_N_ERRORS_PER_BURST")
    case True
    then show ?thesis
      by (simp add: p output_observable_def unbound_def Let_def)
  next
    case False
    with Cons.prems p have "OBS_N_ERRORS_PER_BURST \<in> fst ` set rest" by auto
    then have "isl (output_observables r rest s)" for s by (rule Cons.IH)
    then show ?thesis
      by (cases "output_observable r observable ob out_str") (simp_all add: p)
  qed
qed

text \<open>
  Claim C1 (the code does not do what the claim says). A record with an
  \<^verbatim>\<open>N_ERRORS_PER_BURST\<close> observation is never serialised: \<^verbatim>\<open>get_output_string\<close> raises, with
  \<^verbatim>\<open>NameError\<close> for the unbound name \<^verbatim>\<open>val\<close> when that observation comes first; and a line
  of that kind is never parsed back, since the parser reads the unbound names \<^verbatim>\<open>bcl\<close>,
  \<^verbatim>\<open>bl\<close> and \<^verbatim>\<open>ps\<close>.
\<close>

theorem n_errors_round_trip_raises:
  "(OBS_N_ERRORS_PER_BURST \<in> fst ` set (observations r) \<longrightarrow> isl (get_output_string r))
   \<and> (observations r = (OBS_N_ERRORS_PER_BURST, ob) # rest \<longrightarrow>
        get_output_string r = Inl (NameError ''val''))
   \<and> isl (parse_n_errors_per_burst payload)"
proof (intro conjI impI)
  assume "OBS_N_ERRORS_PER_BURST \<in> fst ` set (observations r)"
  then show "isl (get_output_string r)"
    by (auto simp: get_output_string_def output_observables_raises)
next
  assume "observations r = (OBS_N_ERRORS_PER_BURST, ob) # rest"
  then show "get_output_string r = Inl (NameError ''val'')"
    by (simp add: get_output_string_def output_observable_def unbound_def Let_def)
next
  let ?data = "filter (\<lambda>entry. CHR '':'' \<in> set entry) (split CHR '' '' payload)"
  show "isl (parse_n_errors_per_burst payload)"
  proof (cases "accumulate_entries (unbound ''bcl'') (unbound ''bl'') ?data ([], [], [])")
    case (Inl e)
    then show ?thesis by (simp add: parse_n_errors_per_burst_def)
  next
    case (Inr hists)
    then show ?thesis
      by (cases hists) (simp add: parse_n_errors_per_burst_def compute_rates_unbound)
  qed
qed

theorem n_errors_round_trip_raises_witness:
  "OBS_N_ERRORS_PER_BURST \<in> fst ` set (observations run_n_errors)
   \<and> get_output_string run_n_errors = Inl (NameError ''val'')
   \<and> parse_einsim_output_line line_n_errors [] False = Inl (NameError ''bcl'')"
proof -
  have a: "observations run_n_errors =
      (OBS_N_ERRORS_PER_BURST,
        N_errors_obs (2 / 7680000) 0 [(0, 9998), (1, 2)] [(0, 10000)]
          [(0, (9998, 10000)), (1, (2, 0))]) # []"
    by (simp add: run_n_errors_def OBS_N_ERRORS_PER_BURST_def)
  have b: "parse_einsim_output_line line_n_errors [] False = Inl (NameError ''bcl'')"
    by code_simp
  from n_errors_round_trip_raises [of run_n_errors _ _ "[]"] a b show ?thesis
    by simp
qed

section \<open>The streaming reducer\<close>

lemma parse_non_data_line:
  "take 5 line = ''[ECC]'' \<Longrightarrow> parse_einsim_output_line line fields_to_combine is_experimental = Inr None"
proof -
  assume a: "take 5 line = ''[ECC]''"
  have "take 6 line \<noteq> ''[DATA]''"
  proof
    assume "take 6 line = ''[DATA]''"
    then have "take 5 (take 6 line) = take 5 ''[DATA]''" by simp
    with a show False by (simp add: min_def)
  qed
  then show ?thesis by (simp add: parse_einsim_output_line_def)
qed

text \<open>
  Claim C7 (the code does not do what the claim says). In \<^verbatim>\<open>parse_files_incremental\<close> the
  JSON payload of an \<^verbatim>\<open>[ECC]\<close> line is decoded outside the \<^verbatim>\<open>try\<close>: when \<^verbatim>\<open>json.loads\<close>
  raises, the exception leaves the function, whatever lines and files follow.
\<close>

theorem malformed_ecc_line_aborts:
  assumes "take 5 line = ''[ECC]''" and "json_loads (drop 6 line) = Inl e"
  shows "parse_files_incremental json_loads on_run ((infilename, line # rest) # infiles)
           is_experimental fields_to_combine st = Inl e"
  using assms by (simp add: parse_non_data_line)

theorem malformed_ecc_line_aborts_witness:
  "take 5 (''[ECC] {'' @ [CHR 0x0A]) = ''[ECC]''
   \<and> json_stub (drop 6 (''[ECC] {'' @ [CHR 0x0A])) = Inl ValueError
   \<and> parse_files_incremental json_stub collect
        [(''sim.txt'', [''[ECC] {'' @ [CHR 0x0A], line_per_bit])] False []
        \<lparr>ecc_codes = [], warnings = [], callback_state = []\<rparr> = Inl ValueError"
proof -
  have a: "take 5 (''[ECC] {'' @ [CHR 0x0A]) = ''[ECC]''"
    by simp
  have b: "json_stub (drop 6 (''[ECC] {'' @ [CHR 0x0A])) = Inl ValueError"
    by (simp add: json_stub_def)
  have c: "parse_files_incremental json_stub collect
        [(''sim.txt'', [''[ECC] {'' @ [CHR 0x0A], line_per_bit])] False []
        \<lparr>ecc_codes = [], warnings = [], callback_state = []\<rparr> = Inl ValueError"
    by (rule malformed_ecc_line_aborts [where json_loads = json_stub
          and line = "''[ECC] {'' @ [CHR 0x0A]" and e = ValueError, OF a b])
  show ?thesis
    by (intro conjI a b c)
qed

section \<open>The positional format: the example line\<close>

lemmas py_int_eval = py_int_def trim_def int_isspace_def int_body_def is_digit_def digit_val_def

lemma example_line_parts:
  "split CHR ''['' (strip (drop 7 example_line)) =
     [''REP: p:584576191 t:1 k:4 n:12 rber:1e-06 bl:256 bcl:768 ps:0 ed:UNIFORM_RANDOM cd:ALL_TRUE_OR_ALL_ANTI dp:RANDOM '',
      '' 0:9998:10000 1:2:0 ]'']"
  by (simp add: example_line_def strip_def trim_def str_isspace_def)

lemma example_line_meta_split:
  "split CHR '' '' ''REP: p:584576191 t:1 k:4 n:12 rber:1e-06 bl:256 bcl:768 ps:0 ed:UNIFORM_RANDOM cd:ALL_TRUE_OR_ALL_ANTI dp:RANDOM '' =
     [''REP:'', ''p:584576191'', ''t:1'', ''k:4'', ''n:12'', ''rber:1e-06'', ''bl:256'', ''bcl:768'',
      ''ps:0'', ''ed:UNIFORM_RANDOM'', ''cd:ALL_TRUE_OR_ALL_ANTI'', ''dp:RANDOM'', '''']"
  by simp

lemma example_line_data:
  "filter (\<lambda>entry. CHR '':'' \<in> set entry) (split CHR '' '' '' 0:9998:10000 1:2:0 ]'') =
     [''0:9998:10000'', ''1:2:0'']"
  by simp

lemma example_line_metadata:
  assumes "py_float ''1e-06'' = Inr r"
  shows "positional_metadata py_float ''REP''
           [''REP:'', ''p:584576191'', ''t:1'', ''k:4'', ''n:12'', ''rber:1e-06'', ''bl:256'', ''bcl:768'',
            ''ps:0'', ''ed:UNIFORM_RANDOM'', ''cd:ALL_TRUE_OR_ALL_ANTI'', ''dp:RANDOM'', ''''] (Inr False) =
         Inr \<lparr>am_ecc_category = ''REP'', am_t = 1, am_k = 4, am_n = 12, am_m = - 1,
              am_rber = r, am_bl = 256, am_bcl = 768, am_ps = 0,
              am_ed = ''UNIFORM_RANDOM'', am_cd = ''ALL_TRUE_OR_ALL_ANTI'', am_dp = ''RANDOM'',
              am_p = 584576191\<rparr>"
  using assms
  by (simp add: positional_metadata_def int_item_def text_item_def item_def py_int_eval)

lemma example_line_parsed:
  assumes "py_float ''1e-06'' = Inr r"
  shows "legacy_parse_einsim_output_line py_float example_line =
         Inr (Some (\<lparr>am_ecc_category = ''REP'', am_t = 1, am_k = 4, am_n = 12, am_m = - 1,
              am_rber = r, am_bl = 256, am_bcl = 768, am_ps = 0,
              am_ed = ''UNIFORM_RANDOM'', am_cd = ''ALL_TRUE_OR_ALL_ANTI'', am_dp = ''RANDOM'',
              am_p = 584576191\<rparr>, [''0:9998:10000'', ''1:2:0'']))"
proof -
  have "length example_line > 6 \<and> take 6 example_line = ''[DATA]''"
    by (simp add: example_line_def)
  then show ?thesis
    by (simp add: legacy_parse_einsim_output_line_def example_line_parts example_line_meta_split
          example_line_data example_line_metadata [where py_float = py_float and r = r, OF assms] del: split.simps)
qed

lemma example_entries:
  "accumulate_entries (Inr 768) (Inr 256) [''0:9998:10000'', ''1:2:0''] ([], [], []) =
     Inr ([(0, (9998, 10000)), (1, (2, 0))], [(0, 9998), (1, 2)], [(0, 10000)])"
  by (simp add: unpack_entry_def accumulate_entry_def raw_histogram_add_def histogram_add_def
        py_int_eval)

lemma example_rates:
  "compute_rates (Inr 768) (Inr 0) (Inr 256) [(0, 9998), (1, 2)] [(0, 10000)] =
     Inr (2 / 7680000, 0)"
  by (simp add: compute_rates_def py_div_def true_div_def int_to_float_def)

text \<open>
  Claim C3. \<^verbatim>\<open>parse_all_files\<close> of \<^verbatim>\<open>utils.py\<close>, on one file that holds the example line,
  returns one entry, with the raw histogram \<^verbatim>\<open>{0: [9998, 10000], 1: [2, 0]}\<close>, the repair
  histogram \<^verbatim>\<open>{0: 9998, 1: 2}\<close>, the uncorrectable histogram \<^verbatim>\<open>{0: 10000}\<close>, UBER 0 and
  RBER 2/7680000. (The line has no \<^verbatim>\<open>obs:\<close> field: the parser of \<^verbatim>\<open>utils/utils.py\<close> rejects
  it.)
\<close>

theorem example_line_histograms:
  assumes "py_float ''1e-06'' = Inr r"
  shows "parse_all_files py_float str_float [[example_line]] False =
         Inr [(''[DATA] REP: p:-1 t:1 k:4 n:12 rber:'' @ str_float r
                 @ '' bl:256 bcl:768 ps:0 ed:UNIFORM_RANDOM cd:ALL_TRUE_OR_ALL_ANTI dp:RANDOM'',
               \<lparr>lr_metadata =
                  \<lparr>am_ecc_category = ''REP'', am_t = 1, am_k = 4, am_n = 12, am_m = - 1,
                   am_rber = r, am_bl = 256, am_bcl = 768, am_ps = 0,
                   am_ed = ''UNIFORM_RANDOM'', am_cd = ''ALL_TRUE_OR_ALL_ANTI'', am_dp = ''RANDOM''\<rparr>,
                lr_p = [584576191],
                lr_raw_data = [(0, (9998, 10000)), (1, (2, 0))],
                lr_rber = 2 / 7680000,
                lr_uber = 0,
                lr_re_data = [(0, 9998), (1, 2)],
                lr_ue_data = [(0, 10000)]\<rparr>)]"
proof -
  let ?all_md = "\<lparr>am_ecc_category = ''REP'', am_t = 1, am_k = 4, am_n = 12, am_m = - 1,
                   am_rber = r, am_bl = 256, am_bcl = 768, am_ps = 0,
                   am_ed = ''UNIFORM_RANDOM'', am_cd = ''ALL_TRUE_OR_ALL_ANTI'', am_dp = ''RANDOM''\<rparr>"
  let ?uid = "''[DATA] REP: p:-1 t:1 k:4 n:12 rber:'' @ str_float r
                 @ '' bl:256 bcl:768 ps:0 ed:UNIFORM_RANDOM cd:ALL_TRUE_OR_ALL_ANTI dp:RANDOM''"
  have groups: "group_files py_float str_float False [[example_line]] ([], 0) =
      Inr ([(?uid, (?all_md, [[''0:9998:10000'', ''1:2:0'']], [584576191]))], 0)"
    by (simp add: example_line_parsed [where py_float = py_float and r = r, OF assms]
          legacy_run_uid_from_metadata_def all_metadata.truncate_def
          py_str_int_def digits_of.simps digit_char_def)
  have combined: "combine_histograms (?all_md, [[''0:9998:10000'', ''1:2:0'']], [584576191]) =
      Inr \<lparr>lr_metadata = ?all_md, lr_p = [584576191],
           lr_raw_data = [(0, (9998, 10000)), (1, (2, 0))],
           lr_rber = 2 / 7680000, lr_uber = 0,
           lr_re_data = [(0, 9998), (1, 2)], lr_ue_data = [(0, 10000)]\<rparr>"
    by (simp add: combine_histograms_def example_entries example_rates
          del: accumulate_entries.simps)
  show ?thesis
    by (simp add: parse_all_files_def groups combined del: group_files.simps)
qed

theorem example_line_histograms_witness:
  "float_stub ''1e-06'' = Inr (1 / 1000000)
   \<and> parse_all_files float_stub str_float_stub [[example_line]] False =
       Inr [(''[DATA] REP: p:-1 t:1 k:4 n:12 rber:1e-06 bl:256 bcl:768 ps:0 ed:UNIFORM_RANDOM cd:ALL_TRUE_OR_ALL_ANTI dp:RANDOM'',
             \<lparr>lr_metadata =
                \<lparr>am_ecc_category = ''REP'', am_t = 1, am_k = 4, am_n = 12, am_m = - 1,
                 am_rber = 1 / 1000000, am_bl = 256, am_bcl = 768, am_ps = 0,
                 am_ed = ''UNIFORM_RANDOM'', am_cd = ''ALL_TRUE_OR_ALL_ANTI'', am_dp = ''RANDOM''\<rparr>,
              lr_p = [584576191],
              lr_raw_data = [(0, (9998, 10000)), (1, (2, 0))],
              lr_rber = 2 / 7680000,
              lr_uber = 0,
              lr_re_data = [(0, 9998), (1, 2)],
              lr_ue_data = [(0, 10000)]\<rparr>)]"
proof -
  have a: "float_stub ''1e-06'' = Inr (1 / 1000000)"
    by (simp add: float_stub_def)
  from example_line_histograms [where py_float = float_stub and r = "1 / 1000000"
      and str_float = str_float_stub, OF a] a
  show ?thesis
    by (simp add: str_float_stub_def)
qed

text \<open>The parser of \<^verbatim>\<open>utils/utils.py\<close> on the same line.\<close>

lemma example_line_keyed_parser:
  "parse_einsim_output_line example_line [] False
     = Inl (AssertionError ''No observational data for run'')"
  by code_simp

section \<open>The unguarded UBER quotient\<close>

lemma bind_Inl_iff: "bind m f = Inl e \<longleftrightarrow> m = Inl e \<or> (\<exists>x. m = Inr x \<and> f x = Inl e)"
  by (cases m) simp_all

lemma int_body_error: "int_body b = Inl e \<Longrightarrow> e = ValueError"
  by (simp add: int_body_def split: if_splits)

lemma py_int_error: "py_int s = Inl e \<Longrightarrow> e = ValueError"
  by (cases "trim int_isspace s")
     (auto simp: py_int_def map_sum_def dest: int_body_error split: if_splits sum.splits)

lemma unpack_entry_error: "unpack_entry entry = Inl e \<Longrightarrow> e = ValueError"
  by (auto simp: unpack_entry_def bind_Inl_iff dest: py_int_error split: list.splits)

lemma accumulate_entry_unbound_error:
  "accumulate_entry (unbound a) (unbound b) entry hists = Inl e \<Longrightarrow> e = NameError a \<or> e = NameError b"
  by (cases entry; cases hists)
     (auto simp: accumulate_entry_def unbound_def bind_Inl_iff split: if_splits)

lemma accumulate_entries_unbound_error:
  "accumulate_entries (unbound a) (unbound b) data hists = Inl e
     \<Longrightarrow> e = ValueError \<or> e = NameError a \<or> e = NameError b"
proof (induction data arbitrary: hists)
  case Nil
  then show ?case by simp
next
  case (Cons entry data)
  then show ?case
    by (auto simp: bind_Inl_iff dest: unpack_entry_error accumulate_entry_unbound_error)
qed

text \<open>The parser of \<^verbatim>\<open>utils/utils.py\<close> on a payload of the observable: it always raises,
  and never with \<^verbatim>\<open>ZeroDivisionError\<close>.\<close>

lemma parse_n_errors_per_burst_error:
  "\<exists>e. parse_n_errors_per_burst payload = Inl e
        \<and> (e = ValueError \<or> e = NameError ''bcl'' \<or> e = NameError ''bl'')"
proof -
  let ?data = "filter (\<lambda>entry. CHR '':'' \<in> set entry) (split CHR '' '' payload)"
  show ?thesis
  proof (cases "accumulate_entries (unbound ''bcl'') (unbound ''bl'') ?data ([], [], [])")
    case (Inl e)
    from accumulate_entries_unbound_error [OF Inl] Inl show ?thesis
      by (simp add: parse_n_errors_per_burst_def)
  next
    case (Inr hists)
    then show ?thesis
      by (cases hists) (simp add: parse_n_errors_per_burst_def compute_rates_unbound)
  qed
qed

lemma combine_n_errors_error:
  "combine_n_errors observable runs hists = Inl e \<Longrightarrow> e = KeyError \<or> e = TypeError"
proof (induction runs arbitrary: hists)
  case Nil
  then show ?case by simp
next
  case (Cons run runs)
  then show ?case
    by (auto simp: accumulate_keys_result bind_Inl_iff
             split: option.splits observation.splits if_splits)
qed

lemma combine_observation_n_errors_error:
  "\<exists>e. combine_observation OBS_N_ERRORS_PER_BURST runs = Inl e
        \<and> (e = KeyError \<or> e = TypeError \<or> e = NameError ''bl'')"
proof (cases "combine_n_errors OBS_N_ERRORS_PER_BURST runs ([], [], [])")
  case (Inl e)
  from combine_n_errors_error [OF Inl] Inl show ?thesis
    by (auto simp: combine_observation_def)
next
  case (Inr hists)
  then have "hists = ([], [], [])" by (rule combine_n_errors_result)
  with Inr show ?thesis
    by (simp add: combine_observation_def compute_rates_unbound)
qed

text \<open>The quotient of \<^verbatim>\<open>utils.py\<close>, where the names are bound.\<close>

lemma py_div_errors:
  "py_div a b = Inl e \<Longrightarrow> e = ZeroDivisionError \<or> e = OverflowError"
  by (auto simp: py_div_def true_div_def int_to_float_def bind_def split: if_splits)

lemma py_div_zero: "py_div 0 0 = Inl ZeroDivisionError"
  by (simp add: py_div_def true_div_def int_to_float_def)

lemma compute_rates_empty_uber:
  "compute_rates (Inr bcl) (Inr ps) (Inr bl) re_histogram [] = Inl ZeroDivisionError
   \<or> compute_rates (Inr bcl) (Inr ps) (Inr bl) re_histogram [] = Inl OverflowError"
proof (cases "re_histogram = []")
  case True
  then show ?thesis by (simp add: compute_rates_def py_div_zero)
next
  case False
  let ?q = "py_div (sum_list (map (\<lambda>(n_errs, count). n_errs * count) re_histogram))
                         ((bcl - ps) * sum_list (map snd re_histogram))"
  show ?thesis
  proof (cases ?q)
    case (Inl e)
    from py_div_errors [OF Inl] Inl False show ?thesis
      by (auto simp: compute_rates_def)
  next
    case (Inr r)
    with False show ?thesis by (simp add: compute_rates_def py_div_zero)
  qed
qed

lemma line_no_events_parsed:
  "parse_einsim_output_line line_no_events [] False = Inl (NameError ''bl'')"
  by code_simp

lemma line_all_corrected_parsed:
  "parse_einsim_output_line line_all_corrected [] False = Inl (NameError ''bcl'')"
  by code_simp

lemma all_corrected_parts:
  "split CHR ''['' (strip (drop 7 example_line_all_corrected)) =
     [''REP: p:584576191 t:1 k:4 n:12 rber:1e-06 bl:256 bcl:768 ps:0 ed:UNIFORM_RANDOM cd:ALL_TRUE_OR_ALL_ANTI dp:RANDOM '',
      '' 0:9998:0 1:2:0 ]'']"
  by (simp add: example_line_all_corrected_def strip_def trim_def str_isspace_def)

lemma all_corrected_data:
  "filter (\<lambda>entry. CHR '':'' \<in> set entry) (split CHR '' '' '' 0:9998:0 1:2:0 ]'') =
     [''0:9998:0'', ''1:2:0'']"
  by simp

lemma all_corrected_parsed:
  "legacy_parse_einsim_output_line float_stub example_line_all_corrected =
         Inr (Some (\<lparr>am_ecc_category = ''REP'', am_t = 1, am_k = 4, am_n = 12, am_m = - 1,
              am_rber = 1 / 1000000, am_bl = 256, am_bcl = 768, am_ps = 0,
              am_ed = ''UNIFORM_RANDOM'', am_cd = ''ALL_TRUE_OR_ALL_ANTI'', am_dp = ''RANDOM'',
              am_p = 584576191\<rparr>, [''0:9998:0'', ''1:2:0'']))"
proof -
  have a: "float_stub ''1e-06'' = Inr (1 / 1000000)"
    by (simp add: float_stub_def)
  have "length example_line_all_corrected > 6 \<and> take 6 example_line_all_corrected = ''[DATA]''"
    by (simp add: example_line_all_corrected_def)
  then show ?thesis
    by (simp add: legacy_parse_einsim_output_line_def all_corrected_parts example_line_meta_split
          all_corrected_data example_line_metadata [where py_float = float_stub and r = "1 / 1000000", OF a]
          del: split.simps)
qed

lemma all_corrected_entries:
  "accumulate_entries (Inr 768) (Inr 256) [''0:9998:0'', ''1:2:0''] ([], [], []) =
     Inr ([(0, (9998, 0)), (1, (2, 0))], [(0, 9998), (1, 2)], [])"
  by (simp add: unpack_entry_def accumulate_entry_def raw_histogram_add_def histogram_add_def
        py_int_eval)

lemma all_corrected_rates:
  "compute_rates (Inr 768) (Inr 0) (Inr 256) [(0, 9998), (1, 2)] [] = Inl ZeroDivisionError"
  by (simp add: compute_rates_def py_div_def true_div_def int_to_float_def)

lemma all_corrected_raises:
  "parse_all_files float_stub str_float_stub [[example_line_all_corrected]] False
     = Inl ZeroDivisionError"
proof -
  let ?all_md = "\<lparr>am_ecc_category = ''REP'', am_t = 1, am_k = 4, am_n = 12, am_m = - 1,
                   am_rber = 1 / 1000000 :: real, am_bl = 256, am_bcl = 768, am_ps = 0,
                   am_ed = ''UNIFORM_RANDOM'', am_cd = ''ALL_TRUE_OR_ALL_ANTI'', am_dp = ''RANDOM''\<rparr>"
  let ?uid = "''[DATA] REP: p:-1 t:1 k:4 n:12 rber:'' @ str_float_stub (1 / 1000000)
                 @ '' bl:256 bcl:768 ps:0 ed:UNIFORM_RANDOM cd:ALL_TRUE_OR_ALL_ANTI dp:RANDOM''"
  have groups: "group_files float_stub str_float_stub False [[example_line_all_corrected]] ([], 0) =
      Inr ([(?uid, (?all_md, [[''0:9998:0'', ''1:2:0'']], [584576191]))], 0)"
    by (simp add: all_corrected_parsed
          legacy_run_uid_from_metadata_def all_metadata.truncate_def
          py_str_int_def digits_of.simps digit_char_def)
  have combined: "combine_histograms (?all_md, [[''0:9998:0'', ''1:2:0'']], [584576191]) =
      Inl ZeroDivisionError"
    by (simp add: combine_histograms_def all_corrected_entries all_corrected_rates
          del: accumulate_entries.simps)
  show ?thesis
    by (simp add: parse_all_files_def groups combined del: group_files.simps)
qed

text \<open>
  Claim C10 (the code does not do what the claim says at two of its three places). In
  \<^verbatim>\<open>parse_einsim_output_line\<close> and \<^verbatim>\<open>combine_observation\<close> of \<^verbatim>\<open>utils/utils.py\<close> the quotient
  of UBER reads the name \<^verbatim>\<open>bl\<close>, which is bound nowhere: a record of the observable
  without uncorrectable events makes them raise \<^verbatim>\<open>NameError\<close> (or an earlier exception),
  never \<^verbatim>\<open>ZeroDivisionError\<close>; the line that counts no event reaches the quotient and
  raises \<^verbatim>\<open>NameError\<close> for \<^verbatim>\<open>bl\<close>. In \<^verbatim>\<open>parse_all_files\<close> of \<^verbatim>\<open>utils.py\<close>, where the names are
  bound, the quotient raises \<^verbatim>\<open>ZeroDivisionError\<close> as the claim says: with both histograms
  empty, after the guard of RBER has given \<^verbatim>\<open>-1.0\<close>; with any repair histogram unless the
  quotient of RBER has raised \<^verbatim>\<open>OverflowError\<close> before; and on the example line with
  every error corrected.
\<close>

theorem uber_empty_histogram_sites:
  "(\<exists>e. parse_n_errors_per_burst payload = Inl e
        \<and> (e = ValueError \<or> e = NameError ''bcl'' \<or> e = NameError ''bl''))
   \<and> (\<exists>e. combine_observation OBS_N_ERRORS_PER_BURST runs = Inl e
        \<and> (e = KeyError \<or> e = TypeError \<or> e = NameError ''bl''))
   \<and> parse_einsim_output_line line_no_events [] False = Inl (NameError ''bl'')
   \<and> parse_einsim_output_line line_all_corrected [] False = Inl (NameError ''bcl'')
   \<and> compute_rates (Inr bcl) (Inr ps) (Inr bl) [] [] = Inl ZeroDivisionError
   \<and> (compute_rates (Inr bcl) (Inr ps) (Inr bl) re_histogram [] = Inl ZeroDivisionError
      \<or> compute_rates (Inr bcl) (Inr ps) (Inr bl) re_histogram [] = Inl OverflowError)
   \<and> parse_all_files float_stub str_float_stub [[example_line_all_corrected]] False
       = Inl ZeroDivisionError"
proof -
  have "compute_rates (Inr bcl) (Inr ps) (Inr bl) [] [] = Inl ZeroDivisionError"
    by (simp add: compute_rates_def py_div_zero)
  then show ?thesis
    by (intro conjI)
       (rule parse_n_errors_per_burst_error combine_observation_n_errors_error
          line_no_events_parsed line_all_corrected_parsed compute_rates_empty_uber
          all_corrected_raises | assumption)+
qed

theorem uber_empty_histogram_sites_witness:
  "(\<exists>e. parse_n_errors_per_burst '' 0:0:0 ]'' = Inl e
        \<and> (e = ValueError \<or> e = NameError ''bcl'' \<or> e = NameError ''bl''))
   \<and> (\<exists>e. combine_observation OBS_N_ERRORS_PER_BURST [run_n_errors] = Inl e
        \<and> (e = KeyError \<or> e = TypeError \<or> e = NameError ''bl''))
   \<and> parse_einsim_output_line line_no_events [] False = Inl (NameError ''bl'')
   \<and> parse_einsim_output_line line_all_corrected [] False = Inl (NameError ''bcl'')
   \<and> compute_rates (Inr 768) (Inr 0) (Inr 256) [] [] = Inl ZeroDivisionError
   \<and> (compute_rates (Inr 768) (Inr 0) (Inr 256) [(0, 9998), (1, 2)] [] = Inl ZeroDivisionError
      \<or> compute_rates (Inr 768) (Inr 0) (Inr 256) [(0, 9998), (1, 2)] [] = Inl OverflowError)
   \<and> parse_all_files float_stub str_float_stub [[example_line_all_corrected]] False
       = Inl ZeroDivisionError"
  by (rule uber_empty_histogram_sites
        [where payload = "'' 0:0:0 ]''" and runs = "[run_n_errors]" and bcl = 768 and ps = 0
           and bl = 256 and re_histogram = "[(0, 9998), (1, 2)]"])

section \<open>The retained set of best models\<close>

lemma kept_invI:
  assumes "sorted heap" and "distinct (map snd heap)" and "set heap \<subseteq> set seen"
    and "length heap = min max_n_models_to_plot (length seen)"
    and "length seen \<le> max_n_models_to_plot \<Longrightarrow> set heap = set seen"
    and "fst ` set sims = snd ` set heap" and "distinct (map fst sims)"
    and "\<And>x y. x \<in> set seen \<Longrightarrow> x \<notin> set heap \<Longrightarrow> y \<in> set heap \<Longrightarrow> fst x \<le> fst y"
  shows "kept_inv seen heap sims"
  unfolding kept_inv_def using assms by blast

lemma kept_invD:
  assumes "kept_inv seen heap sims"
  shows "sorted heap" and "distinct (map snd heap)" and "set heap \<subseteq> set seen"
    and "length heap = min max_n_models_to_plot (length seen)"
    and "length seen \<le> max_n_models_to_plot \<Longrightarrow> set heap = set seen"
    and "fst ` set sims = snd ` set heap" and "distinct (map fst sims)"
    and "\<And>x y. x \<in> set seen \<Longrightarrow> x \<notin> set heap \<Longrightarrow> y \<in> set heap \<Longrightarrow> fst x \<le> fst y"
  using assms unfolding kept_inv_def by blast+

lemma sorted_head_least_score:
  fixes x :: "real \<times> string"
  assumes "sorted (x # xs)" and "y \<in> set (x # xs)"
  shows "fst x \<le> fst y"
proof -
  from assms have "x \<le> y" by auto
  then show ?thesis by (auto simp: less_eq_prod_def)
qed

lemma distinct_snd_insort:
  fixes x :: "real \<times> string"
  assumes "distinct (map snd xs)" and "snd x \<notin> snd ` set xs"
  shows "distinct (map snd (insort x xs))"
proof -
  from assms have "x \<notin> set xs" by force
  moreover from assms have "inj_on snd (insert x (set xs))"
    by (auto simp: distinct_map)
  ultimately show ?thesis
    using assms by (simp add: distinct_map distinct_insort set_insort_key)
qed


lemma full_heap:
  assumes inv: "kept_inv seen heap sims" and full: "\<not> length heap < max_n_models_to_plot"
  shows "max_n_models_to_plot \<le> length seen" and "length heap = max_n_models_to_plot"
    and "heap = hd heap # tl heap"
proof -
  from kept_invD(4) [OF inv] full
  show a: "max_n_models_to_plot \<le> length seen" and b: "length heap = max_n_models_to_plot"
    by (simp_all add: min_def split: if_splits)
  from b have "heap \<noteq> []" by (auto simp: max_n_models_to_plot_def)
  then show "heap = hd heap # tl heap" by simp
qed

lemma update_top_n_below_capacity:
  assumes inv: "kept_inv seen heap sims" and new: "u \<notin> snd ` set seen"
    and below: "length heap < max_n_models_to_plot"
  shows "update_top_n (heap, sims) s u e = Inr (insort (s, u) heap, AList.update u e sims)
         \<and> kept_inv (seen @ [(s, u)]) (insort (s, u) heap) (AList.update u e sims)"
proof
  show "update_top_n (heap, sims) s u e = Inr (insort (s, u) heap, AList.update u e sims)"
    using below by (simp add: update_top_n_def heappush_def)
  from kept_invD(4) [OF inv] below have len: "length seen < max_n_models_to_plot"
    by (simp add: min_def split: if_splits)
  with kept_invD(5) [OF inv] have all: "set heap = set seen"
    by simp
  from new all have u_new: "u \<notin> snd ` set heap" by simp
  show "kept_inv (seen @ [(s, u)]) (insort (s, u) heap) (AList.update u e sims)"
  proof (rule kept_invI)
    show "sorted (insort (s, u) heap)"
      using kept_invD(1) [OF inv] by (simp add: sorted_insort)
    show "distinct (map snd (insort (s, u) heap))"
      using kept_invD(2) [OF inv] u_new by (intro distinct_snd_insort) simp_all
    show "set (insort (s, u) heap) \<subseteq> set (seen @ [(s, u)])"
      using all by (auto simp: set_insort_key)
    show "length (insort (s, u) heap) = min max_n_models_to_plot (length (seen @ [(s, u)]))"
      using kept_invD(4) [OF inv] len by (simp add: min_def)
    show "set (insort (s, u) heap) = set (seen @ [(s, u)])"
      using all by (simp add: set_insort_key)
    show "fst ` set (AList.update u e sims) = snd ` set (insort (s, u) heap)"
      using kept_invD(6) [OF inv] by (simp add: dom_update set_insort_key)
    show "distinct (map fst (AList.update u e sims))"
      using kept_invD(7) [OF inv] by (rule distinct_update)
    show "fst x \<le> fst y"
      if "x \<in> set (seen @ [(s, u)])" "x \<notin> set (insort (s, u) heap)" for x y
      using that all by (simp add: set_insort_key)
  qed
qed

lemma update_top_n_refused:
  assumes inv: "kept_inv seen heap sims" and new: "u \<notin> snd ` set seen"
    and full: "\<not> length heap < max_n_models_to_plot" and low: "\<not> fst (hd heap) < s"
  shows "update_top_n (heap, sims) s u e = Inr (heap, sims)
         \<and> kept_inv (seen @ [(s, u)]) heap sims"
proof
  show "update_top_n (heap, sims) s u e = Inr (heap, sims)"
    using full low by (simp add: update_top_n_def)
  note fh = full_heap [OF inv full]
  have least: "fst (hd heap) \<le> fst y" if "y \<in> set heap" for y
  proof -
    from kept_invD(1) [OF inv] fh(3) have "sorted (hd heap # tl heap)" by simp
    moreover from that fh(3) have "y \<in> set (hd heap # tl heap)" by simp
    ultimately show ?thesis by (rule sorted_head_least_score)
  qed
  show "kept_inv (seen @ [(s, u)]) heap sims"
  proof (rule kept_invI)
    show "sorted heap" by (rule kept_invD(1) [OF inv])
    show "distinct (map snd heap)" by (rule kept_invD(2) [OF inv])
    show "set heap \<subseteq> set (seen @ [(s, u)])"
      using kept_invD(3) [OF inv] by auto
    show "length heap = min max_n_models_to_plot (length (seen @ [(s, u)]))"
      using fh(1,2) by simp
    show "set heap = set (seen @ [(s, u)])" if "length (seen @ [(s, u)]) \<le> max_n_models_to_plot"
      using that fh(1) by simp
    show "fst ` set sims = snd ` set heap" by (rule kept_invD(6) [OF inv])
    show "distinct (map fst sims)" by (rule kept_invD(7) [OF inv])
    show "fst x \<le> fst y"
      if "x \<in> set (seen @ [(s, u)])" "x \<notin> set heap" "y \<in> set heap" for x y
    proof (cases "x = (s, u)")
      case True
      with low least [OF that(3)] show ?thesis by simp
    next
      case False
      with that(1) have "x \<in> set seen" by simp
      then show ?thesis using that(2,3) by (rule kept_invD(8) [OF inv])
    qed
  qed
qed


lemma update_top_n_evicts:
  assumes inv: "kept_inv seen heap sims" and new: "u \<notin> snd ` set seen"
    and full: "\<not> length heap < max_n_models_to_plot" and high: "fst (hd heap) < s"
  shows "update_top_n (heap, sims) s u e =
           Inr (insort (s, u) (tl heap), AList.update u e (AList.delete (snd (hd heap)) sims))
         \<and> kept_inv (seen @ [(s, u)]) (insort (s, u) (tl heap))
             (AList.update u e (AList.delete (snd (hd heap)) sims))"
proof
  note fh = full_heap [OF inv full]
  define m where "m = hd heap"
  define rest where "rest = tl heap"
  from fh(3) have heap: "heap = m # rest" by (simp add: m_def rest_def)
  have mu_in: "snd m \<in> fst ` set sims"
    using kept_invD(6) [OF inv] heap by simp
  show "update_top_n (heap, sims) s u e =
           Inr (insort (s, u) (tl heap), AList.update u e (AList.delete (snd (hd heap)) sims))"
    using fh(2) high mu_in heap
    by (cases m) (simp add: update_top_n_def heappop_def heappush_def)
  have sorted_heap: "sorted (m # rest)"
    using kept_invD(1) [OF inv] heap by simp
  have least: "fst m \<le> fst y" if "y \<in> set rest" for y
    using sorted_heap by (rule sorted_head_least_score) (use that in simp)
  have dist: "distinct (map snd (m # rest))"
    using kept_invD(2) [OF inv] heap by simp
  then have mu_notin: "snd m \<notin> snd ` set rest" by simp
  have u_notin: "u \<notin> snd ` set rest"
    using new kept_invD(3) [OF inv] heap by force
  have keys: "fst ` set (AList.delete (snd m) sims) = snd ` set rest"
  proof -
    have "fst ` set (AList.delete (snd m) sims) = fst ` set sims - {snd m}"
      by (auto simp: AList.delete_eq)
    also have "fst ` set sims = insert (snd m) (snd ` set rest)"
      using kept_invD(6) [OF inv] heap by simp
    finally show ?thesis using mu_notin by auto
  qed
  have "kept_inv (seen @ [(s, u)]) (insort (s, u) rest) (AList.update u e (AList.delete (snd m) sims))"
  proof (rule kept_invI)
    show "sorted (insort (s, u) rest)"
      using sorted_heap by (simp add: sorted_insort)
    show "distinct (map snd (insort (s, u) rest))"
      using dist u_notin by (intro distinct_snd_insort) simp_all
    show "set (insort (s, u) rest) \<subseteq> set (seen @ [(s, u)])"
      using kept_invD(3) [OF inv] heap by (auto simp: set_insort_key)
    show "length (insort (s, u) rest) = min max_n_models_to_plot (length (seen @ [(s, u)]))"
      using fh(1,2) heap by simp
    show "set (insort (s, u) rest) = set (seen @ [(s, u)])"
      if "length (seen @ [(s, u)]) \<le> max_n_models_to_plot"
      using that fh(1) by simp
    show "fst ` set (AList.update u e (AList.delete (snd m) sims)) = snd ` set (insort (s, u) rest)"
      using keys by (simp add: dom_update set_insort_key)
    show "distinct (map fst (AList.update u e (AList.delete (snd m) sims)))"
      using kept_invD(7) [OF inv] by (intro distinct_update distinct_delete)
    show "fst x \<le> fst y"
      if "x \<in> set (seen @ [(s, u)])" "x \<notin> set (insort (s, u) rest)" "y \<in> set (insort (s, u) rest)"
      for x y
    proof -
      from that(1,2) have x: "x \<in> set seen" "x \<notin> set rest"
        by (auto simp: set_insort_key)
      have xm: "fst x \<le> fst m"
      proof (cases "x = m")
        case True
        then show ?thesis by simp
      next
        case False
        with x(2) heap have "x \<notin> set heap" by simp
        moreover from heap have "m \<in> set heap" by simp
        ultimately show ?thesis using x(1) kept_invD(8) [OF inv] by blast
      qed
      from that(3) consider "y = (s, u)" | "y \<in> set rest"
        by (auto simp: set_insort_key)
      then show ?thesis
      proof cases
        case 1
        with xm high show ?thesis by (simp add: m_def)
      next
        case 2
        with least [of y] xm show ?thesis by simp
      qed
    qed
  qed
  then show "kept_inv (seen @ [(s, u)]) (insort (s, u) (tl heap))
             (AList.update u e (AList.delete (snd (hd heap)) sims))"
    by (simp add: m_def rest_def)
qed

lemma update_top_n_inv:
  assumes "kept_inv seen heap sims" and "u \<notin> snd ` set seen"
  shows "\<exists>heap' sims'. update_top_n (heap, sims) s u e = Inr (heap', sims')
           \<and> kept_inv (seen @ [(s, u)]) heap' sims'"
proof (cases "length heap < max_n_models_to_plot")
  case True
  from update_top_n_below_capacity [OF assms True] show ?thesis by blast
next
  case full: False
  show ?thesis
  proof (cases "fst (hd heap) < s")
    case True
    from update_top_n_evicts [OF assms full True] show ?thesis by blast
  next
    case False
    from update_top_n_refused [OF assms full False] show ?thesis by blast
  qed
qed
lemma update_top_n_inv_result:
  assumes "kept_inv seen heap sims" and "u \<notin> snd ` set seen"
    and "update_top_n (heap, sims) s u e = Inr (heap', sims')"
  shows "kept_inv (seen @ [(s, u)]) heap' sims'"
  using update_top_n_inv [OF assms(1,2), of s e] assms(3) by auto

lemma kept_inv_empty: "kept_inv [] [] []"
  by (simp add: kept_inv_def)

lemma for_each_length: "for_each f xs = Inr ys \<Longrightarrow> length ys = length xs"
proof (induction xs arbitrary: ys)
  case Nil
  then show ?case by simp
next
  case (Cons x xs)
  then show ?case by (auto simp: bind_Inr_iff)
qed

lemma model_log_probs_length:
  "model_log_probs lib sim_data exp_data samples = Inr lps \<Longrightarrow> length lps = length samples"
  by (auto simp: model_log_probs_def bind_Inr_iff dest: for_each_length)

lemma np_max_model_score:
  assumes "model_log_probs lib sim_data exp_data samples = Inr lps" and "lps \<noteq> []"
  shows "np_max lps = Inr (model_score lib exp_data samples sim_data)"
  using assms by (simp add: np_max_def model_score_def split: list.splits)

lemma callback_skips:
  assumes "am_bl (lr_metadata sim_data) \<noteq> am_bl (lr_metadata exp_data)"
  shows "callback lib sim_uid sim_data exp_uid exp_data samples st = Inr st"
  using assms by (simp add: callback_def)

lemma callback_inv:
  assumes inv: "state_inv exp_uid exp_data seen st"
    and bl: "am_bl (lr_metadata sim_data) = am_bl (lr_metadata exp_data)"
    and res: "callback lib sim_uid sim_data exp_uid exp_data samples st = Inr st'"
  shows "state_inv exp_uid exp_data
           (seen @ [(model_score lib exp_data samples sim_data, sim_uid)]) st'"
proof -
  let ?s = "model_score lib exp_data samples sim_data"
  let ?label = "s_xlabel_of lib sim_data"
  let ?table = "case map_of (log_probabilities st) exp_uid of None \<Rightarrow> [] | Some t \<Rightarrow> t"
  from res bl obtain lps where lp: "model_log_probs lib sim_data exp_data samples = Inr lps"
    by (auto simp: callback_def Let_def bind_Inr_iff)
  from res bl lp have notin: "sim_uid \<notin> fst ` set ?table"
    by (auto simp: callback_def Let_def split: if_splits)
  have nonempty: "lps \<noteq> []"
  proof
    assume "lps = []"
    with res bl notin lp show False
      by (simp add: callback_def Let_def np_max_def)
  qed
  note mx = np_max_model_score [OF lp nonempty]
  from inv have new: "sim_uid \<notin> snd ` set seen"
    using notin by (auto simp: state_inv_def split: option.splits)
  from inv new have dist: "distinct (map snd (seen @ [(?s, sim_uid)]))"
    by (auto simp: state_inv_def)
  from inv have keys: "fst ` set (?table @ [(sim_uid, (lps, ?label))]) = snd ` set (seen @ [(?s, sim_uid)])"
    by (auto simp: state_inv_def split: option.splits)
  show ?thesis
  proof (cases "map_of (log_probabilities st) exp_uid")
    case None
    with inv have none: "map_of (top_n_models_heapq st) exp_uid = None"
      "map_of (top_n_models_data st) exp_uid = None" and seen: "seen = []"
      by (simp_all add: state_inv_def)
    from res bl notin mx none lp
    obtain heap' sims' where
      upd: "update_top_n ([], []) ?s sim_uid (lps, ?label, sim_data) = Inr (heap', sims')"
      and st': "st' = st\<lparr>log_probabilities :=
                        AList.update exp_uid (?table @ [(sim_uid, (lps, ?label))]) (log_probabilities st),
                    top_n_models_data :=
                        AList.update exp_uid (exp_data, sims')
                          (AList.update exp_uid (exp_data, []) (top_n_models_data st)),
                    top_n_models_heapq :=
                        AList.update exp_uid heap'
                          (AList.update exp_uid [] (top_n_models_heapq st))\<rparr>"
      by (auto simp: callback_def Let_def update_conv bind_Inr_iff)
    from update_top_n_inv_result [OF kept_inv_empty _ upd]
    have "kept_inv (seen @ [(?s, sim_uid)]) heap' sims'"
      by (simp add: seen)
    with dist keys show ?thesis
      by (simp add: state_inv_def st' update_conv)
  next
    case (Some table)
    with inv obtain heap sims where
      some: "map_of (top_n_models_heapq st) exp_uid = Some heap"
        "map_of (top_n_models_data st) exp_uid = Some (exp_data, sims)"
      and kept: "kept_inv seen heap sims"
      by (auto simp: state_inv_def)
    from res bl notin mx some lp
    obtain heap' sims' where
      upd: "update_top_n (heap, sims) ?s sim_uid (lps, ?label, sim_data) = Inr (heap', sims')"
      and st'': "st' = st\<lparr>log_probabilities :=
                        AList.update exp_uid (?table @ [(sim_uid, (lps, ?label))]) (log_probabilities st),
                    top_n_models_heapq := AList.update exp_uid heap' (top_n_models_heapq st),
                    top_n_models_data :=
                        AList.update exp_uid (exp_data, sims') (top_n_models_data st)\<rparr>"
      by (auto simp: callback_def Let_def update_conv bind_Inr_iff)
    from update_top_n_inv_result [OF kept new upd]
    have "kept_inv (seen @ [(?s, sim_uid)]) heap' sims'" .
    with dist keys show ?thesis
      by (simp add: state_inv_def st'' update_conv)
  qed
qed

lemma callback_step:
  assumes inv: "state_inv exp_uid exp_data seen st"
    and bl: "am_bl (lr_metadata sim_data) = am_bl (lr_metadata exp_data)"
    and new: "sim_uid \<notin> snd ` set seen"
    and samples: "samples \<noteq> []"
    and defined: "\<not> isl (model_log_probs lib sim_data exp_data samples)"
  shows "\<exists>st'. callback lib sim_uid sim_data exp_uid exp_data samples st = Inr st'
           \<and> state_inv exp_uid exp_data
                (seen @ [(model_score lib exp_data samples sim_data, sim_uid)]) st'"
proof -
  let ?s = "model_score lib exp_data samples sim_data"
  let ?label = "s_xlabel_of lib sim_data"
  let ?table = "case map_of (log_probabilities st) exp_uid of None \<Rightarrow> [] | Some t \<Rightarrow> t"
  from defined obtain lps where lp: "model_log_probs lib sim_data exp_data samples = Inr lps"
    by (cases "model_log_probs lib sim_data exp_data samples") simp_all
  from inv new have notin: "sim_uid \<notin> fst ` set ?table"
    by (auto simp: state_inv_def split: option.splits)
  from samples model_log_probs_length [OF lp] have "lps \<noteq> []"
    by auto
  note mx = np_max_model_score [OF lp this]
  have "\<exists>st'. callback lib sim_uid sim_data exp_uid exp_data samples st = Inr st'"
  proof (cases "map_of (log_probabilities st) exp_uid")
    case None
    with inv have none: "map_of (top_n_models_heapq st) exp_uid = None"
      "map_of (top_n_models_data st) exp_uid = None" and seen: "seen = []"
      by (simp_all add: state_inv_def)
    from update_top_n_inv [OF kept_inv_empty, of sim_uid ?s "(lps, ?label, sim_data)"]
    obtain heap' sims' where
      "update_top_n ([], []) ?s sim_uid (lps, ?label, sim_data) = Inr (heap', sims')"
      by auto
    with bl notin mx none lp show ?thesis
      by (simp add: callback_def Let_def update_conv)
  next
    case (Some table)
    with inv obtain heap sims where
      some: "map_of (top_n_models_heapq st) exp_uid = Some heap"
        "map_of (top_n_models_data st) exp_uid = Some (exp_data, sims)"
      and kept: "kept_inv seen heap sims"
      by (auto simp: state_inv_def)
    from update_top_n_inv [OF kept new, of ?s "(lps, ?label, sim_data)"]
    obtain heap' sims' where
      "update_top_n (heap, sims) ?s sim_uid (lps, ?label, sim_data) = Inr (heap', sims')"
      by auto
    with bl notin mx some lp show ?thesis
      by (simp add: callback_def Let_def update_conv)
  qed
  then obtain st' where
    res: "callback lib sim_uid sim_data exp_uid exp_data samples st = Inr st'" ..
  from callback_inv [OF inv bl res] res show ?thesis by blast
qed

lemma evaluate_models_inv:
  assumes "state_inv exp_uid exp_data seen st"
    and "distinct (map fst (accepted_models exp_data simulations))"
    and "fst ` set (accepted_models exp_data simulations) \<inter> snd ` set seen = {}"
    and "samples \<noteq> []"
    and "list_all (\<lambda>(sim_uid, sim_data). \<not> isl (model_log_probs lib sim_data exp_data samples))
           (accepted_models exp_data simulations)"
  shows "\<exists>st'. evaluate_models lib simulations exp_uid exp_data samples st = Inr st'
           \<and> state_inv exp_uid exp_data
                (seen @ scored lib exp_data samples (accepted_models exp_data simulations)) st'"
  using assms
proof (induction simulations arbitrary: seen st)
  case Nil
  then show ?case by (simp add: accepted_models_def scored_def)
next
  case (Cons model simulations)
  obtain sim_uid sim_data where model: "model = (sim_uid, sim_data)" by (cases model)
  note prems = Cons.prems [unfolded model]
  show ?case
  proof (cases "am_bl (lr_metadata sim_data) = am_bl (lr_metadata exp_data)")
    case False
    then have acc: "accepted_models exp_data ((sim_uid, sim_data) # simulations)
        = accepted_models exp_data simulations"
      by (simp add: accepted_models_def)
    from False have skip: "callback lib sim_uid sim_data exp_uid exp_data samples st = Inr st"
      by (rule callback_skips)
    from prems(2,3,5) have p: "distinct (map fst (accepted_models exp_data simulations))"
      "fst ` set (accepted_models exp_data simulations) \<inter> snd ` set seen = {}"
      "list_all (\<lambda>(sim_uid, sim_data). \<not> isl (model_log_probs lib sim_data exp_data samples))
           (accepted_models exp_data simulations)"
      by (simp_all add: acc)
    from Cons.IH [OF prems(1) p(1) p(2) prems(4) p(3)]
    show ?thesis
      by (simp add: model acc skip)
  next
    case True
    then have acc: "accepted_models exp_data ((sim_uid, sim_data) # simulations)
        = (sim_uid, sim_data) # accepted_models exp_data simulations"
      by (simp add: accepted_models_def)
    let ?pair = "(model_score lib exp_data samples sim_data, sim_uid)"
    from prems(3) have new: "sim_uid \<notin> snd ` set seen"
      by (auto simp: acc)
    from prems(5) have def1: "\<not> isl (model_log_probs lib sim_data exp_data samples)"
      and defs: "list_all (\<lambda>(sim_uid, sim_data). \<not> isl (model_log_probs lib sim_data exp_data samples))
           (accepted_models exp_data simulations)"
      by (simp_all add: acc)
    from callback_step [OF prems(1) True new prems(4) def1]
    obtain st1 where
      step: "callback lib sim_uid sim_data exp_uid exp_data samples st = Inr st1"
      and inv1: "state_inv exp_uid exp_data (seen @ [?pair]) st1"
      by blast
    from prems(2) have d: "distinct (map fst (accepted_models exp_data simulations))"
      and fresh: "sim_uid \<notin> fst ` set (accepted_models exp_data simulations)"
      by (simp_all add: acc)
    from prems(3) fresh
    have disj: "fst ` set (accepted_models exp_data simulations) \<inter> snd ` set (seen @ [?pair]) = {}"
      by (auto simp: acc)
    from Cons.IH [OF inv1 d disj prems(4) defs]
    show ?thesis
      by (simp add: model step acc scored_def)
  qed
qed

lemma int_to_float_word:
  "\<bar>i\<bar> < 2 ^ 64 \<Longrightarrow> int_to_float i = Inr (real_of_int i)"
proof -
  assume a: "\<bar>i\<bar> < 2 ^ 64"
  have "(2::int) ^ 64 < 2 ^ 1024 - 2 ^ 970"
    by simp
  with a show ?thesis
    by (simp add: int_to_float_def)
qed

lemma upto_0_4: "[0..4::int] = [0, 1, 2, 3, 4]"
  by (simp add: upto_rec1)

lemma demo_s_pmf:
  assumes "0 < c" and "c < 2 ^ 32"
  shows "s_pmf_of [(0, c), (1, 1)] 4 =
           Inr [real_of_int c / (real_of_int c + 1), 1 / (real_of_int c + 1),
                1 / 10 ^ 10, 1 / 10 ^ 10, 1 / 10 ^ 10]"
proof -
  from assms have "\<bar>c + 1\<bar> < 2 ^ 64" "\<bar>c\<bar> < 2 ^ 64" "\<bar>1::int\<bar> < 2 ^ 64"
    by simp_all
  note conv = this [THEN int_to_float_word]
  from assms have nz: "real_of_int c + 1 \<noteq> 0"
    by linarith
  show ?thesis
    using nz by (simp add: s_pmf_of_def conv true_div_def fill_range_def sorted_values_def upto_0_4)
qed

lemma demo_log_pmf:
  "log_pmf demo_lib [p0, p1, p2, p3, p4] [(0, 1)] 4 = Inr (ln p0)"
  by (simp add: log_pmf_def fill_range_def sorted_values_def upto_0_4 to_int64_def
        broadcast_def demo_lib_def int64_succ_def Let_def)

lemma demo_log_probs:
  assumes "0 < c" and "c < 2 ^ 32"
  shows "model_log_probs demo_lib (demo_run c) demo_experiment [[(0, 1)]]
           = Inr [ln (real_of_int c / (real_of_int c + 1))]"
  by (simp add: model_log_probs_def demo_run_def demo_experiment_def demo_s_pmf [OF assms]
        demo_log_pmf)

text \<open>
  The exceptions of the likelihood itself: a histogram of the model with a number of
  errors outside \<^verbatim>\<open>0..bl\<close> gives arrays of different lengths, and a histogram whose counts
  sum to zero a division by zero.
\<close>

lemma key_out_of_range_raises:
  "model_log_probs demo_lib ((demo_run 1)\<lparr>lr_ue_data := [(- 1, 3), (0, 1)]\<rparr>) demo_experiment
     [[(0, 1)]] = Inl ValueError"
proof -
  have a: "int_to_float 4 = Inr 4" "int_to_float 3 = Inr 3" "int_to_float 1 = Inr 1"
    by (simp_all add: int_to_float_def)
  show ?thesis
    by (simp add: model_log_probs_def demo_run_def demo_experiment_def s_pmf_of_def a true_div_def
          fill_range_def sorted_values_def upto_0_4 log_pmf_def to_int64_def broadcast_def
          demo_lib_def Let_def)
qed

lemma zero_sum_histogram_raises:
  "model_log_probs lib ((demo_run 1)\<lparr>lr_ue_data := [(0, 0)]\<rparr>) exp_data samples
     = Inl ZeroDivisionError"
proof -
  have a: "int_to_float 0 = Inr 0"
    by (simp add: int_to_float_def)
  show ?thesis
    by (simp add: model_log_probs_def demo_run_def s_pmf_of_def a true_div_def)
qed

text \<open>
  Claim C8. Starting from a state that records nothing for the experiment, after the
  callback has been called on a list of models of which more than 20 have the
  experiment's burst length (with distinct identities, at least one sample histogram,
  and the log-likelihoods of each of them computed without an exception, so that no call
  raises), the heap and the dictionary \<^verbatim>\<open>sims\<close> of the experiment hold exactly 20 entries
  for the same identities, every heap entry is the score and identity of an accepted
  model, and every accepted model that is not retained (evicted or refused) scores at
  most as much as every retained one.
\<close>

theorem top_k_bound:
  assumes fresh: "map_of (log_probabilities st) exp_uid = None"
      "map_of (top_n_models_heapq st) exp_uid = None"
      "map_of (top_n_models_data st) exp_uid = None"
    and uids: "distinct (map fst (accepted_models exp_data simulations))"
    and samples: "o_sample_histograms \<noteq> []"
    and defined: "list_all (\<lambda>(sim_uid, sim_data).
                     \<not> isl (model_log_probs lib sim_data exp_data o_sample_histograms))
                   (accepted_models exp_data simulations)"
    and many: "20 < length (accepted_models exp_data simulations)"
  shows "\<exists>st' heap sims.
           evaluate_models lib simulations exp_uid exp_data o_sample_histograms st = Inr st'
           \<and> map_of (top_n_models_heapq st') exp_uid = Some heap
           \<and> map_of (top_n_models_data st') exp_uid = Some (exp_data, sims)
           \<and> length heap = 20 \<and> length sims = 20 \<and> fst ` set sims = snd ` set heap
           \<and> set heap \<subseteq> set (scored lib exp_data o_sample_histograms
                                (accepted_models exp_data simulations))
           \<and> (\<forall>(sim_uid, sim_data) \<in> set (accepted_models exp_data simulations).
                 sim_uid \<notin> fst ` set sims \<longrightarrow>
                 (\<forall>(kept_logprob, kept_uid) \<in> set heap.
                    model_score lib exp_data o_sample_histograms sim_data \<le> kept_logprob))"
proof -
  let ?seen = "scored lib exp_data o_sample_histograms (accepted_models exp_data simulations)"
  from fresh have "state_inv exp_uid exp_data [] st"
    by (simp add: state_inv_def)
  from evaluate_models_inv [OF this uids _ samples defined]
  obtain st' where
    run: "evaluate_models lib simulations exp_uid exp_data o_sample_histograms st = Inr st'"
    and inv: "state_inv exp_uid exp_data ?seen st'"
    by auto
  from many have len: "20 < length ?seen"
    by (simp add: scored_def)
  then have "?seen \<noteq> []" by auto
  with inv obtain heap sims where
    heap: "map_of (top_n_models_heapq st') exp_uid = Some heap"
    and sims: "map_of (top_n_models_data st') exp_uid = Some (exp_data, sims)"
    and kept: "kept_inv ?seen heap sims"
    by (auto simp: state_inv_def split: option.splits)
  note k = kept_invD [OF kept]
  from k(4) len have l1: "length heap = 20"
    by (simp add: max_n_models_to_plot_def)
  have "length sims = card (fst ` set sims)"
    using distinct_card [OF k(7)] by simp
  also have "\<dots> = card (snd ` set heap)"
    by (simp add: k(6))
  also have "\<dots> = length heap"
    using distinct_card [OF k(2)] by simp
  finally have l2: "length sims = 20"
    using l1 by simp
  have low: "model_score lib exp_data o_sample_histograms sim_data \<le> kept_logprob"
    if "(sim_uid, sim_data) \<in> set (accepted_models exp_data simulations)"
      and "sim_uid \<notin> fst ` set sims" and "(kept_logprob, kept_uid) \<in> set heap"
    for sim_uid sim_data kept_logprob kept_uid
  proof -
    let ?x = "(model_score lib exp_data o_sample_histograms sim_data, sim_uid)"
    from that(1) have "?x \<in> set ?seen"
      by (force simp: scored_def)
    moreover from that(2) k(6) have "?x \<notin> set heap"
      by force
    ultimately have "fst ?x \<le> fst (kept_logprob, kept_uid)"
      using that(3) by (rule k(8))
    then show ?thesis by simp
  qed
  have rest: "\<forall>(sim_uid, sim_data) \<in> set (accepted_models exp_data simulations).
                 sim_uid \<notin> fst ` set sims \<longrightarrow>
                 (\<forall>(kept_logprob, kept_uid) \<in> set heap.
                    model_score lib exp_data o_sample_histograms sim_data \<le> kept_logprob)"
  proof (intro ballI)
    fix x assume x: "x \<in> set (accepted_models exp_data simulations)"
    show "case x of (sim_uid, sim_data) \<Rightarrow>
                 sim_uid \<notin> fst ` set sims \<longrightarrow>
                 (\<forall>(kept_logprob, kept_uid) \<in> set heap.
                    model_score lib exp_data o_sample_histograms sim_data \<le> kept_logprob)"
    proof (cases x)
      case (Pair sim_uid sim_data)
      have "model_score lib exp_data o_sample_histograms sim_data \<le> fst y"
        if "sim_uid \<notin> fst ` set sims" "y \<in> set heap" for y
        using low [of sim_uid sim_data "fst y" "snd y"] x that by (simp add: Pair)
      then show ?thesis
        by (simp add: Pair split_beta)
    qed
  qed
  show ?thesis
    by (intro exI conjI) (rule run heap sims l1 l2 k(6) k(3) rest)+
qed

theorem top_k_bound_witness:
  "map_of (log_probabilities demo_state) ''exp_0'' = None
   \<and> map_of (top_n_models_heapq demo_state) ''exp_0'' = None
   \<and> map_of (top_n_models_data demo_state) ''exp_0'' = None
   \<and> distinct (map fst (accepted_models demo_experiment demo_models))
   \<and> [[(0, 1)]] \<noteq> ([] :: histogram list)
   \<and> list_all (\<lambda>(sim_uid, sim_data).
                  \<not> isl (model_log_probs demo_lib sim_data demo_experiment [[(0, 1)]]))
        (accepted_models demo_experiment demo_models)
   \<and> 20 < length (accepted_models demo_experiment demo_models)
   \<and> (\<exists>st' heap sims.
         evaluate_models demo_lib demo_models ''exp_0'' demo_experiment [[(0, 1)]] demo_state = Inr st'
         \<and> map_of (top_n_models_heapq st') ''exp_0'' = Some heap
         \<and> map_of (top_n_models_data st') ''exp_0'' = Some (demo_experiment, sims)
         \<and> length heap = 20 \<and> length sims = 20 \<and> fst ` set sims = snd ` set heap
         \<and> set heap \<subseteq> set (scored demo_lib demo_experiment [[(0, 1)]]
                              (accepted_models demo_experiment demo_models))
         \<and> (\<forall>(sim_uid, sim_data) \<in> set (accepted_models demo_experiment demo_models).
               sim_uid \<notin> fst ` set sims \<longrightarrow>
               (\<forall>(kept_logprob, kept_uid) \<in> set heap.
                  model_score demo_lib demo_experiment [[(0, 1)]] sim_data \<le> kept_logprob)))"
proof -
  have f: "map_of (log_probabilities demo_state) ''exp_0'' = None"
    "map_of (top_n_models_heapq demo_state) ''exp_0'' = None"
    "map_of (top_n_models_data demo_state) ''exp_0'' = None"
    by (simp_all add: demo_state_def)
  have acc: "accepted_models demo_experiment demo_models = demo_models"
    by (simp add: accepted_models_def demo_models_def demo_run_def demo_experiment_def)
  have keys: "map fst demo_models =
      [''sim_1'', ''sim_2'', ''sim_3'', ''sim_4'', ''sim_5'', ''sim_6'', ''sim_7'', ''sim_8'',
       ''sim_9'', ''sim_10'', ''sim_11'', ''sim_12'', ''sim_13'', ''sim_14'', ''sim_15'', ''sim_16'',
       ''sim_17'', ''sim_18'', ''sim_19'', ''sim_20'', ''sim_21'', ''sim_22'']"
    by (simp add: demo_models_def py_str_int_def digits_of.simps digit_char_def)
  have d: "distinct (map fst (accepted_models demo_experiment demo_models))"
    unfolding acc keys by simp
  have s: "[[(0, 1)]] \<noteq> ([] :: histogram list)"
    by simp
  have l: "list_all (\<lambda>(sim_uid, sim_data).
                  \<not> isl (model_log_probs demo_lib sim_data demo_experiment [[(0, 1)]]))
        (accepted_models demo_experiment demo_models)"
    unfolding acc by (simp add: demo_models_def demo_log_probs)
  have m: "20 < length (accepted_models demo_experiment demo_models)"
    unfolding acc by (simp add: demo_models_def)
  from top_k_bound [OF f d s l m] f d s l m show ?thesis
    by (intro conjI)
qed

end
